theory Spec2Isabelle
  imports Complex_Main "HOL-Library.Sublist" "HOL-Library.AList"
begin

section \<open>Python strings and values\<close>

text \<open>
  Strings are lists of 8-bit characters, read as the code points \<open>U+0000\<close> to \<open>U+00FF\<close>
  (Latin-1); text with a code point above \<open>U+00FF\<close> is outside the model. On this range
  \<open>str.lower()\<close> works character by character: it maps \<open>A\<close>..\<open>Z\<close> and the capital letters
  \<open>U+00C0\<close>..\<open>U+00DE\<close> (without the multiplication sign \<open>U+00D7\<close>) to the letter 32 places
  further on and leaves every other character alone.
\<close>

datatype exn =
    ValueError string
  | TypeError string
  | KeyError string
  | AttributeError string
  | ModuleNotFoundError string
  | ReError string
  | RaisedException string

definition upper_chars :: string where
  "upper_chars = ''ABCDEFGHIJKLMNOPQRSTUVWXYZ'' @
     [CHR 0xC0, CHR 0xC1, CHR 0xC2, CHR 0xC3, CHR 0xC4, CHR 0xC5, CHR 0xC6, CHR 0xC7,
      CHR 0xC8, CHR 0xC9, CHR 0xCA, CHR 0xCB, CHR 0xCC, CHR 0xCD, CHR 0xCE, CHR 0xCF,
      CHR 0xD0, CHR 0xD1, CHR 0xD2, CHR 0xD3, CHR 0xD4, CHR 0xD5, CHR 0xD6, CHR 0xD8,
      CHR 0xD9, CHR 0xDA, CHR 0xDB, CHR 0xDC, CHR 0xDD, CHR 0xDE]"

definition lower_chars :: string where
  "lower_chars = ''abcdefghijklmnopqrstuvwxyz'' @
     [CHR 0xE0, CHR 0xE1, CHR 0xE2, CHR 0xE3, CHR 0xE4, CHR 0xE5, CHR 0xE6, CHR 0xE7,
      CHR 0xE8, CHR 0xE9, CHR 0xEA, CHR 0xEB, CHR 0xEC, CHR 0xED, CHR 0xEE, CHR 0xEF,
      CHR 0xF0, CHR 0xF1, CHR 0xF2, CHR 0xF3, CHR 0xF4, CHR 0xF5, CHR 0xF6, CHR 0xF8,
      CHR 0xF9, CHR 0xFA, CHR 0xFB, CHR 0xFC, CHR 0xFD, CHR 0xFE]"

definition lower_char :: "char \<Rightarrow> char" where
  "lower_char c = (case map_of (zip upper_chars lower_chars) c of Some d \<Rightarrow> d | None \<Rightarrow> c)"

definition lower :: "string \<Rightarrow> string" where
  "lower s = map lower_char s"

text \<open>Python's \<open>sub in s\<close> on strings: \<open>sub\<close> occurs as a contiguous piece of \<open>s\<close>.\<close>

fun starts_with :: "string \<Rightarrow> string \<Rightarrow> bool" where
  "starts_with s [] = True"
| "starts_with [] (p # ps) = False"
| "starts_with (c # cs) (p # ps) = (c = p \<and> starts_with cs ps)"

fun py_in :: "string \<Rightarrow> string \<Rightarrow> bool" where
  "py_in sub [] = (sub = [])"
| "py_in sub (c # cs) = (starts_with (c # cs) sub \<or> py_in sub cs)"

text \<open>
  The whitespace of \<open>str.isspace\<close>, which is the whitespace of \<open>str.split()\<close>, of
  \<open>str.strip()\<close> and of the class \<open>\s\<close> of \<open>re\<close>: the ASCII whitespace, the four separators
  \<open>U+001C\<close>..\<open>U+001F\<close>, the next-line control \<open>U+0085\<close> and the no-break space \<open>U+00A0\<close>.
\<close>

definition is_space :: "char \<Rightarrow> bool" where
  "is_space c = (c \<in> set [CHR 0x09, CHR 0x0A, CHR 0x0B, CHR 0x0C, CHR 0x0D, CHR 0x1C, CHR 0x1D,
                            CHR 0x1E, CHR 0x1F, CHR 0x20, CHR 0x85, CHR 0xA0])"

text \<open>\<open>str.split()\<close> with no argument: the maximal runs of non-whitespace characters.\<close>

fun split_acc :: "string \<Rightarrow> string \<Rightarrow> string list" where
  "split_acc w [] = (if w = [] then [] else [w])"
| "split_acc w (c # cs) =
     (if is_space c then (if w = [] then split_acc [] cs else w # split_acc [] cs)
      else split_acc (w @ [c]) cs)"

definition py_split :: "string \<Rightarrow> string list" where
  "py_split s = split_acc [] s"

definition py_strip :: "string \<Rightarrow> string" where
  "py_strip s = rev (dropWhile is_space (rev (dropWhile is_space s)))"

definition digit_char :: "nat \<Rightarrow> char" where
  "digit_char d = ''0123456789'' ! d"

function nat_str :: "nat \<Rightarrow> string" where
  "nat_str n = (if n < 10 then [digit_char n] else nat_str (n div 10) @ [digit_char (n mod 10)])"
  by pat_completeness auto
termination
  by (relation "measure id") auto

declare nat_str.simps [simp del]

definition int_str :: "int \<Rightarrow> string" where
  "int_str i = (if i < 0 then CHR ''-'' # nat_str (nat (- i)) else nat_str (nat i))"

text \<open>
  \<open>repr\<close> of a string, which the message of a failed \<open>int()\<close> quotes: the string between
  single quotes (between double quotes when it holds a single quote and no double quote),
  with the quote and the backslash escaped, \<open>\t\<close>, \<open>\n\<close> and \<open>\r\<close> written so, and every
  other character that is not printable written \<open>\xNN\<close>. The printable characters of the
  range are \<open>U+0020\<close>..\<open>U+007E\<close> and \<open>U+00A1\<close>..\<open>U+00FF\<close> without the soft hyphen
  \<open>U+00AD\<close>.
\<close>

definition is_printable :: "char \<Rightarrow> bool" where
  "is_printable c =
     (let n = (of_char c :: nat) in (32 \<le> n \<and> n < 127) \<or> (161 \<le> n \<and> n \<noteq> 173))"

definition hex_digit :: "nat \<Rightarrow> char" where
  "hex_digit d = ''0123456789abcdef'' ! d"

definition repr_char :: "char \<Rightarrow> char \<Rightarrow> string" where
  "repr_char quote c =
     (if c = quote \<or> c = CHR 0x5C then [CHR 0x5C, c]
      else if c = CHR 0x09 then [CHR 0x5C, CHR ''t'']
      else if c = CHR 0x0A then [CHR 0x5C, CHR ''n'']
      else if c = CHR 0x0D then [CHR 0x5C, CHR ''r'']
      else if is_printable c then [c]
      else [CHR 0x5C, CHR ''x'', hex_digit ((of_char c :: nat) div 16),
            hex_digit ((of_char c :: nat) mod 16)])"

definition py_repr :: "string \<Rightarrow> string" where
  "py_repr s =
     (let quote = (if CHR 0x27 \<in> set s \<and> CHR 0x22 \<notin> set s then CHR 0x22 else CHR 0x27)
      in quote # concat (map (repr_char quote) s) @ [quote])"

text \<open>
  \<open>int()\<close> of a string (CPython 3.11). Leading and trailing whitespace is dropped; here
  the whitespace is the ASCII whitespace, \<open>U+0085\<close> and \<open>U+00A0\<close>, not the separators
  \<open>U+001C\<close>..\<open>U+001F\<close>. After an optional sign comes a run of decimal digits in which single
  underscores may stand between digits. A run of more than 4300 digits is refused before
  the rest of the string is looked at. The message of an invalid literal quotes the first
  200 characters of the \<open>repr\<close> of the string.
\<close>

definition is_int_space :: "char \<Rightarrow> bool" where
  "is_int_space c = (c \<in> set [CHR 0x09, CHR 0x0A, CHR 0x0B, CHR 0x0C, CHR 0x0D, CHR 0x20,
                                CHR 0x85, CHR 0xA0])"

definition is_digit :: "char \<Rightarrow> bool" where
  "is_digit c = (c \<in> set ''0123456789'')"

definition digits_value :: "string \<Rightarrow> int" where
  "digits_value ds = foldl (\<lambda>acc c. acc * 10 + ((of_char c :: int) - 48)) 0 ds"

definition invalid_literal :: "string \<Rightarrow> exn" where
  "invalid_literal s =
     ValueError (''invalid literal for int() with base 10: '' @ take 200 (py_repr s))"

definition int_max_str_digits :: nat where
  "int_max_str_digits = 4300"

definition int_of_string :: "string \<Rightarrow> exn + int" where
  "int_of_string s =
     (let t = dropWhile is_int_space s;
          negative = (take 1 t = ''-'');
          u = (if take 1 t = ''-'' \<or> take 1 t = ''+'' then drop 1 t else t);
          run = takeWhile (\<lambda>c. is_digit c \<or> c = CHR ''_'') u;
          rest = dropWhile (\<lambda>c. is_digit c \<or> c = CHR ''_'') u;
          digits = filter is_digit run
      in if run = [] \<or> take 1 run = ''_'' \<or> take 1 (rev run) = ''_'' \<or> py_in ''__'' run
         then Inl (invalid_literal s)
         else if length digits > int_max_str_digits
         then Inl (ValueError
                 (''Exceeds the limit (4300 digits) for integer string conversion: value has ''
                  @ nat_str (length digits)
                  @ '' digits; use sys.set_int_max_str_digits() to increase the limit''))
         else if dropWhile is_int_space rest \<noteq> [] then Inl (invalid_literal s)
         else Inr (if negative then - digits_value digits else digits_value digits))"

text \<open>
  The \<open>value\<close> of an agreement rule has type \<open>Any\<close>, and \<open>_check_rule\<close> reads it through
  \<open>str(value)\<close> and \<open>int(value)\<close>. \<open>None\<close> (the default), a truth value, an integer and a
  string are modelled as such. Any other object (a float, a list, a dictionary) is
  \<open>VOther\<close>, given by what \<open>str()\<close> and \<open>int()\<close> make of it: a text or an exception, an
  integer or an exception. \<open>str()\<close> of an integer of more than 4300 digits raises.
\<close>

datatype py_value =
    VNone
  | VBool bool
  | VInt int
  | VStr string
  | VOther "exn + string" "exn + int"

fun py_str :: "py_value \<Rightarrow> exn + string" where
  "py_str VNone = Inr ''None''"
| "py_str (VBool b) = Inr (if b then ''True'' else ''False'')"
| "py_str (VInt i) =
     (if 10 ^ int_max_str_digits \<le> \<bar>i\<bar>
      then Inl (ValueError (''Exceeds the limit (4300 digits) for integer string conversion; ''
                            @ ''use sys.set_int_max_str_digits() to increase the limit''))
      else Inr (int_str i))"
| "py_str (VStr s) = Inr s"
| "py_str (VOther text number) = text"

fun py_int :: "py_value \<Rightarrow> exn + int" where
  "py_int VNone =
     Inl (TypeError (''int() argument must be a string, a bytes-like object or a real number, ''
                     @ ''not 'NoneType'' @ [CHR 0x27]))"
| "py_int (VBool b) = Inr (if b then 1 else 0)"
| "py_int (VInt i) = Inr i"
| "py_int (VStr s) = int_of_string s"
| "py_int (VOther text number) = number"

section \<open>Agreement rules and their validator (core/workflow.py)\<close>

record agreement_rule =
  rule_name :: string
  rule_type :: string
  rule_value :: py_value
  rule_required :: bool

text \<open>
  The checks of the kinds \<open>regex\<close>, \<open>json\<close> and \<open>schema\<close> are done by Python's
  \<open>re\<close>, \<open>json\<close> and \<open>jsonschema\<close> modules, which are not part of the repository:
  they are parameters. \<open>re_search pattern text\<close> is \<open>bool(re.search(pattern, text))\<close> or
  the exception that \<open>re\<close> raises (\<open>re.error\<close> when the pattern does not compile); the
  \<open>json\<close> and \<open>schema\<close> branches catch every exception and answer with a truth value;
  \<open>jsonschema\<close> is imported outside the \<open>try\<close>.
\<close>

record rule_lib =
  re_search :: "string \<Rightarrow> string \<Rightarrow> exn + bool"
  json_found :: "string \<Rightarrow> bool"
  schema_found :: "py_value \<Rightarrow> string \<Rightarrow> bool"
  jsonschema_installed :: bool

definition check_rule :: "rule_lib \<Rightarrow> string \<Rightarrow> agreement_rule \<Rightarrow> exn + bool" where
  "check_rule lib out rule =
     (let output_lower = lower out in
      if rule_type rule = ''contains'' then
        (case py_str (rule_value rule) of
           Inl e \<Rightarrow> Inl e
         | Inr text \<Rightarrow> Inr (py_in (lower text) output_lower))
      else if rule_type rule = ''not_contains'' then
        (case py_str (rule_value rule) of
           Inl e \<Rightarrow> Inl e
         | Inr text \<Rightarrow> Inr (\<not> py_in (lower text) output_lower))
      else if rule_type rule = ''min_words'' then
        (case py_int (rule_value rule) of
           Inl e \<Rightarrow> Inl e
         | Inr n \<Rightarrow> Inr (int (length (py_split out)) \<ge> n))
      else if rule_type rule = ''max_words'' then
        (case py_int (rule_value rule) of
           Inl e \<Rightarrow> Inl e
         | Inr n \<Rightarrow> Inr (int (length (py_split out)) \<le> n))
      else if rule_type rule = ''regex'' then
        (case py_str (rule_value rule) of
           Inl e \<Rightarrow> Inl e
         | Inr pattern \<Rightarrow> re_search lib pattern out)
      else if rule_type rule = ''json'' then
        Inr (json_found lib out)
      else if rule_type rule = ''schema'' then
        (if jsonschema_installed lib then Inr (schema_found lib (rule_value rule) out)
         else Inl (ModuleNotFoundError (''No module named 'jsonschema'' @ [CHR 0x27])))
      else Inr True)"

record rule_result =
  res_passed :: bool
  res_type :: string
  res_required :: bool

record validation =
  passed :: bool
  results :: "(string \<times> rule_result) list"
  failed_required :: "string list"

text \<open>
  The loop of \<open>AgreementValidator.validate\<close>: \<open>results\<close> is a dictionary keyed by the
  rule's name (a later rule of the same name overwrites the entry), \<open>failed_required\<close>
  a list. An exception of \<open>_check_rule\<close> is not caught and leaves \<open>validate\<close>.
\<close>

fun validate_loop ::
  "rule_lib \<Rightarrow> string \<Rightarrow> agreement_rule list \<Rightarrow> (string \<times> rule_result) list \<Rightarrow> string list
    \<Rightarrow> exn + ((string \<times> rule_result) list \<times> string list)" where
  "validate_loop lib out [] res failed = Inr (res, failed)"
| "validate_loop lib out (rule # rules) res failed =
     (case check_rule lib out rule of
        Inl e \<Rightarrow> Inl e
      | Inr p \<Rightarrow>
          validate_loop lib out rules
            (AList.update (rule_name rule)
               \<lparr>res_passed = p, res_type = rule_type rule, res_required = rule_required rule\<rparr> res)
            (if \<not> p \<and> rule_required rule then failed @ [rule_name rule] else failed))"

definition validate :: "rule_lib \<Rightarrow> string \<Rightarrow> agreement_rule list \<Rightarrow> exn + validation" where
  "validate lib out rules =
     (case validate_loop lib out rules [] [] of
        Inl e \<Rightarrow> Inl e
      | Inr (res, failed) \<Rightarrow>
          Inr \<lparr>passed = (length failed = 0), results = res, failed_required = failed\<rparr>)"

section \<open>Facts about strings\<close>

lemma starts_with_prefix: "starts_with s p = prefix p s"
  by (induction s p rule: starts_with.induct) auto

lemma py_in_sublist: "py_in sub s = sublist sub s"
  by (induction s) (simp_all add: starts_with_prefix sublist_Cons_right)




section \<open>The validator's result\<close>







subsection \<open>Claim C8: what the validator returns\<close>

definition sample_lib :: rule_lib where
  "sample_lib = \<lparr>re_search = (\<lambda>p t. Inr False), json_found = (\<lambda>t. False),
                  schema_found = (\<lambda>v t. False), jsonschema_installed = True\<rparr>"







section \<open>Regular expressions\<close>

text \<open>
  The repository finds its tags with Python's \<open>re\<close> module. The patterns it uses are built
  from literals, character classes, greedy and lazy repetition of a class, capturing
  groups, optional groups and the two anchors. A pattern is a term of type \<open>re\<close>; the
  matcher returns every way the pattern matches at a position, in the order in which a
  backtracking matcher tries them, so that the first one is the match \<open>re\<close> reports.
\<close>

datatype cls = Space | Quote | Dot | DotAll | Word | Digit

text \<open>
  The class \<open>\w\<close> of a pattern on text: the characters of \<open>str.isalnum\<close> and the
  underscore. Beyond ASCII these are the letters and the number signs of Latin-1.
\<close>

definition is_word_char :: "char \<Rightarrow> bool" where
  "is_word_char c =
     (c \<in> set (''abcdefghijklmnopqrstuvwxyzABCDEFGHIJKLMNOPQRSTUVWXYZ0123456789_'' @
      [CHR 0xAA, CHR 0xB2, CHR 0xB3, CHR 0xB5, CHR 0xB9, CHR 0xBA, CHR 0xBC, CHR 0xBD,
       CHR 0xBE, CHR 0xC0, CHR 0xC1, CHR 0xC2, CHR 0xC3, CHR 0xC4, CHR 0xC5, CHR 0xC6,
       CHR 0xC7, CHR 0xC8, CHR 0xC9, CHR 0xCA, CHR 0xCB, CHR 0xCC, CHR 0xCD, CHR 0xCE,
       CHR 0xCF, CHR 0xD0, CHR 0xD1, CHR 0xD2, CHR 0xD3, CHR 0xD4, CHR 0xD5, CHR 0xD6,
       CHR 0xD8, CHR 0xD9, CHR 0xDA, CHR 0xDB, CHR 0xDC, CHR 0xDD, CHR 0xDE, CHR 0xDF,
       CHR 0xE0, CHR 0xE1, CHR 0xE2, CHR 0xE3, CHR 0xE4, CHR 0xE5, CHR 0xE6, CHR 0xE7,
       CHR 0xE8, CHR 0xE9, CHR 0xEA, CHR 0xEB, CHR 0xEC, CHR 0xED, CHR 0xEE, CHR 0xEF,
       CHR 0xF0, CHR 0xF1, CHR 0xF2, CHR 0xF3, CHR 0xF4, CHR 0xF5, CHR 0xF6, CHR 0xF8,
       CHR 0xF9, CHR 0xFA, CHR 0xFB, CHR 0xFC, CHR 0xFD, CHR 0xFE, CHR 0xFF]))"

fun in_cls :: "cls \<Rightarrow> char \<Rightarrow> bool" where
  "in_cls Space c = is_space c"
| "in_cls Quote c = (c = CHR 0x22 \<or> c = CHR 0x27)"
| "in_cls Dot c = (c \<noteq> CHR 0x0A)"
| "in_cls DotAll c = True"
| "in_cls Word c = is_word_char c"
| "in_cls Digit c = (c \<in> set ''0123456789'')"

datatype re =
    Lit string
  | LitI string
  | One cls
  | Star cls
  | Plus cls
  | Lazy cls
  | Grp nat re
  | Opt re
  | Cat re re
  | AtStart
  | AtEnd

text \<open>A matcher state: the position, the text from there on, and the groups captured.\<close>

type_synonym mstate = "nat \<times> string \<times> (nat \<times> string) list"

fun lit_match :: "bool \<Rightarrow> string \<Rightarrow> string \<Rightarrow> string option" where
  "lit_match ci [] s = Some s"
| "lit_match ci (p # ps) [] = None"
| "lit_match ci (p # ps) (c # cs) =
     (if (if ci then lower_char c = lower_char p else c = p) then lit_match ci ps cs else None)"

fun star_g :: "cls \<Rightarrow> nat \<Rightarrow> string \<Rightarrow> (nat \<times> string) list" where
  "star_g k pos [] = [(pos, [])]"
| "star_g k pos (c # cs) =
     (if in_cls k c then star_g k (Suc pos) cs @ [(pos, c # cs)] else [(pos, c # cs)])"

fun star_l :: "cls \<Rightarrow> nat \<Rightarrow> string \<Rightarrow> (nat \<times> string) list" where
  "star_l k pos [] = [(pos, [])]"
| "star_l k pos (c # cs) =
     (pos, c # cs) # (if in_cls k c then star_l k (Suc pos) cs else [])"

fun ms :: "re \<Rightarrow> mstate \<Rightarrow> mstate list" where
  "ms (Lit p) (pos, s, caps) =
     (case lit_match False p s of None \<Rightarrow> [] | Some rest \<Rightarrow> [(pos + length p, rest, caps)])"
| "ms (LitI p) (pos, s, caps) =
     (case lit_match True p s of None \<Rightarrow> [] | Some rest \<Rightarrow> [(pos + length p, rest, caps)])"
| "ms (One k) (pos, s, caps) =
     (case s of [] \<Rightarrow> [] | c # cs \<Rightarrow> if in_cls k c then [(Suc pos, cs, caps)] else [])"
| "ms (Star k) (pos, s, caps) = map (\<lambda>(p, r). (p, r, caps)) (star_g k pos s)"
| "ms (Plus k) (pos, s, caps) =
     (case s of
        [] \<Rightarrow> []
      | c # cs \<Rightarrow>
          if in_cls k c then map (\<lambda>(p, r). (p, r, caps)) (star_g k (Suc pos) cs) else [])"
| "ms (Lazy k) (pos, s, caps) = map (\<lambda>(p, r). (p, r, caps)) (star_l k pos s)"
| "ms (Grp i r) (pos, s, caps) =
     map (\<lambda>(p, rest, c). (p, rest, AList.update i (take (p - pos) s) c)) (ms r (pos, s, caps))"
| "ms (Opt r) st = ms r st @ [st]"
| "ms (Cat r1 r2) st = concat (map (ms r2) (ms r1 st))"
| "ms AtStart (pos, s, caps) = (if pos = 0 then [(pos, s, caps)] else [])"
| "ms AtEnd (pos, s, caps) = (if s = [] \<or> s = [CHR 0x0A] then [(pos, s, caps)] else [])"

definition seq :: "re list \<Rightarrow> re" where
  "seq rs = foldr Cat rs (Lit [])"

record rmatch =
  m_start :: nat
  m_end :: nat
  m_groups :: "(nat \<times> string) list"

text \<open>\<open>match.group(i)\<close>: \<open>None\<close> for a group that took no part in the match.\<close>

definition group :: "rmatch \<Rightarrow> nat \<Rightarrow> string option" where
  "group m i = map_of (m_groups m) i"

definition group_str :: "rmatch \<Rightarrow> nat \<Rightarrow> string" where
  "group_str m i = (case group m i of None \<Rightarrow> [] | Some t \<Rightarrow> t)"

text \<open>
  \<open>re.finditer\<close>: the matches from left to right, none overlapping. \<open>skip\<close> counts the
  characters still covered by the last match.
\<close>

fun scan :: "re \<Rightarrow> nat \<Rightarrow> nat \<Rightarrow> string \<Rightarrow> rmatch list" where
  "scan r pos skip [] =
     (if skip = 0 then
        (case ms r (pos, [], []) of
           [] \<Rightarrow> []
         | (p, rest, caps) # _ \<Rightarrow> [\<lparr>m_start = pos, m_end = p, m_groups = caps\<rparr>])
      else [])"
| "scan r pos (Suc k) (c # cs) = scan r (Suc pos) k cs"
| "scan r pos 0 (c # cs) =
     (case ms r (pos, c # cs, []) of
        [] \<Rightarrow> scan r (Suc pos) 0 cs
      | (p, rest, caps) # _ \<Rightarrow>
          \<lparr>m_start = pos, m_end = p, m_groups = caps\<rparr> # scan r (Suc pos) (p - pos - 1) cs)"

definition finditer :: "re \<Rightarrow> string \<Rightarrow> rmatch list" where
  "finditer r s = scan r 0 0 s"

text \<open>\<open>re.sub(pattern, '', s)\<close>: the text with every match removed.\<close>

fun sub_scan :: "re \<Rightarrow> nat \<Rightarrow> nat \<Rightarrow> string \<Rightarrow> string" where
  "sub_scan r pos skip [] = []"
| "sub_scan r pos (Suc k) (c # cs) = sub_scan r (Suc pos) k cs"
| "sub_scan r pos 0 (c # cs) =
     (case ms r (pos, c # cs, []) of
        [] \<Rightarrow> c # sub_scan r (Suc pos) 0 cs
      | (p, rest, caps) # _ \<Rightarrow>
          if p = pos then c # sub_scan r (Suc pos) 0 cs
          else sub_scan r (Suc pos) (p - pos - 1) cs)"

definition re_remove :: "re \<Rightarrow> string \<Rightarrow> string" where
  "re_remove r s = sub_scan r 0 0 s"

text \<open>The shape \<open><tag\s+attr=["'](.*?)["']\<close> that opens every tag pattern.\<close>

definition tag_open :: "string \<Rightarrow> string \<Rightarrow> cls \<Rightarrow> re list" where
  "tag_open tag attr dot =
     [Lit (CHR ''<'' # tag), Plus Space, Lit (attr @ ''=''), One Quote, Grp 1 (Lazy dot),
      One Quote]"

text \<open>\<open><tag\s+path=["'](.*?)["']\s*/>\<close>\<close>

definition self_closing_re :: "string \<Rightarrow> string \<Rightarrow> re" where
  "self_closing_re tag attr = seq (tag_open tag attr Dot @ [Star Space, Lit ''/>''])"

text \<open>\<open><tag\s+path=["'](.*?)["']>(.*?)</tag>\<close> with \<open>re.DOTALL\<close>\<close>

definition block_re :: "string \<Rightarrow> string \<Rightarrow> re" where
  "block_re tag attr =
     seq (tag_open tag attr DotAll @
          [Lit ''>'', Grp 2 (Lazy DotAll), Lit (''</'' @ tag @ ''>'')])"

text \<open>\<open><tag\s+path=["'](.*?)["']\s+to=["'](.*?)["']\s*/>\<close>\<close>

definition from_to_re :: "string \<Rightarrow> re" where
  "from_to_re tag =
     seq (tag_open tag ''path'' Dot @
          [Plus Space, Lit ''to='', One Quote, Grp 2 (Lazy Dot), One Quote, Star Space,
           Lit ''/>''])"


section \<open>Paths (Python's posixpath)\<close>

definition path_join :: "string \<Rightarrow> string \<Rightarrow> string" where
  "path_join a b =
     (if starts_with b ''/'' then b
      else if a = [] \<or> last a = CHR ''/'' then a @ b
      else a @ ''/'' @ b)"

fun split_sep_acc :: "char \<Rightarrow> string \<Rightarrow> string \<Rightarrow> string list" where
  "split_sep_acc sep w [] = [w]"
| "split_sep_acc sep w (c # cs) =
     (if c = sep then w # split_sep_acc sep [] cs else split_sep_acc sep (w @ [c]) cs)"

definition split_sep :: "char \<Rightarrow> string \<Rightarrow> string list" where
  "split_sep sep s = split_sep_acc sep [] s"

fun join_sep :: "string \<Rightarrow> string list \<Rightarrow> string" where
  "join_sep sep [] = []"
| "join_sep sep [x] = x"
| "join_sep sep (x # y # ys) = x @ sep @ join_sep sep (y # ys)"

text \<open>The loop of \<open>normpath\<close> over the components, \<open>new_comps\<close> being the accumulator.\<close>

fun norm_comps :: "nat \<Rightarrow> string list \<Rightarrow> string list \<Rightarrow> string list" where
  "norm_comps slashes new_comps [] = new_comps"
| "norm_comps slashes new_comps (part # comps) =
     (if part = [] \<or> part = ''.'' then norm_comps slashes new_comps comps
      else if part \<noteq> ''..'' \<or> (slashes = 0 \<and> new_comps = [])
               \<or> (new_comps \<noteq> [] \<and> last new_comps = ''..'')
           then norm_comps slashes (new_comps @ [part]) comps
      else if new_comps \<noteq> [] then norm_comps slashes (butlast new_comps) comps
      else norm_comps slashes new_comps comps)"

definition normpath :: "string \<Rightarrow> string" where
  "normpath path =
     (if path = [] then ''.''
      else
        let slashes = (if starts_with path ''/'' then
                         (if starts_with path ''//'' \<and> \<not> starts_with path ''///'' then 2 else 1)
                       else 0 :: nat);
            comps = norm_comps slashes [] (split_sep CHR ''/'' path);
            joined = replicate slashes CHR ''/'' @ join_sep ''/'' comps
        in if joined = [] then ''.'' else joined)"

text \<open>
  \<open>os.path.dirname\<close>: everything up to the last slash, without trailing slashes unless
  it consists of slashes only.
\<close>

definition dirname :: "string \<Rightarrow> string" where
  "dirname p =
     (let head = rev (dropWhile (\<lambda>c. c \<noteq> CHR ''/'') (rev p))
      in if head \<noteq> [] \<and> head \<noteq> replicate (length head) CHR ''/''
         then rev (dropWhile (\<lambda>c. c = CHR ''/'') (rev head))
         else head)"

section \<open>The tool processor (core/tools/tool\_processor.py)\<close>

text \<open>
  What the processor does to the filesystem is a log of operations. What the filesystem
  answers (whether a path exists, what a file holds, whether an operation fails with an
  \<open>OSError\<close>) is not decided by the program: it is a parameter, asked with the number
  of operations done so far.
\<close>

datatype fs_op =
    MakeDirs string
  | WriteFile string string
  | AppendFile string string
  | ReadFile string
  | ListDir string
  | Unlink string
  | RmTree string
  | CopyTree string string
  | Copy2 string string
  | Move string string

record fs_world =
  w_exists :: "nat \<Rightarrow> string \<Rightarrow> bool"
  w_isfile :: "nat \<Rightarrow> string \<Rightarrow> bool"
  w_isdir :: "nat \<Rightarrow> string \<Rightarrow> bool"
  w_fault :: "nat \<Rightarrow> fs_op \<Rightarrow> string option"
  w_read :: "nat \<Rightarrow> string \<Rightarrow> string"
  w_listdir :: "nat \<Rightarrow> string \<Rightarrow> string list"

text \<open>
  The processor's state: the filesystem log, the \<open>results\<close> dictionary's lists that the
  file tags write, and the messages and thoughts sent to the engine (the messages are
  kept without their leading emoji).
\<close>

record tp_state =
  fs_log :: "fs_op list"
  files_created :: "string list"
  files_deleted :: "string list"
  dirs_created :: "string list"
  errors :: "string list"
  tp_messages :: "string list"
  tp_thoughts :: "string list"

definition tp_init :: tp_state where
  "tp_init = \<lparr>fs_log = [], files_created = [], files_deleted = [], dirs_created = [],
               errors = [], tp_messages = [], tp_thoughts = []\<rparr>"

definition safe_path :: "string \<Rightarrow> string \<Rightarrow> string option" where
  "safe_path base_dir path =
     (let target = normpath (path_join base_dir path)
      in if \<not> starts_with target base_dir then None else Some target)"

definition tp_say :: "string \<Rightarrow> tp_state \<Rightarrow> tp_state" where
  "tp_say msg st = st\<lparr>tp_messages := tp_messages st @ [msg]\<rparr>"

definition emit_thought :: "string \<Rightarrow> tp_state \<Rightarrow> tp_state" where
  "emit_thought t st = st\<lparr>tp_thoughts := tp_thoughts st @ [t]\<rparr>"

text \<open>One filesystem call: it fails with the world's message, or it is done and logged.\<close>

definition do_op :: "fs_world \<Rightarrow> fs_op \<Rightarrow> tp_state \<Rightarrow> string + tp_state" where
  "do_op w op st =
     (case w_fault w (length (fs_log st)) op of
        Some msg \<Rightarrow> Inl msg
      | None \<Rightarrow> Inr (st\<lparr>fs_log := fs_log st @ [op]\<rparr>))"

definition fence_open_re :: re where
  "fence_open_re = seq [AtStart, Lit ''```'', Star Word, Star Space, Opt (Lit [CHR 0x0A])]"

definition fence_close_re :: re where
  "fence_close_re = seq [Opt (Lit [CHR 0x0A]), Lit ''```'', Star Space, AtEnd]"

definition clean_content :: "string \<Rightarrow> string" where
  "clean_content content =
     py_strip (re_remove fence_close_re (re_remove fence_open_re (py_strip content)))"

text \<open>The body of each handler's loop, for one match of its pattern.\<close>

definition write_file_step :: "fs_world \<Rightarrow> string \<Rightarrow> rmatch \<Rightarrow> tp_state \<Rightarrow> tp_state" where
  "write_file_step w base_dir m st =
     (let file_path = group_str m 1;
          content = clean_content (group_str m 2)
      in case safe_path base_dir file_path of
           None \<Rightarrow>
             (tp_say (''Security: blocked write to '' @ file_path) st)
               \<lparr>errors := errors st @ [''Blocked write: '' @ file_path]\<rparr>
         | Some target \<Rightarrow>
             if content = [] then tp_say (''Skipped empty file: '' @ file_path) st
             else
               (case do_op w (MakeDirs (dirname target)) st of
                  Inl e \<Rightarrow> (tp_say (''Write Error: '' @ e) st)\<lparr>errors := errors st @ [e]\<rparr>
                | Inr st1 \<Rightarrow>
                    (case do_op w (WriteFile target content) st1 of
                       Inl e \<Rightarrow> (tp_say (''Write Error: '' @ e) st1)\<lparr>errors := errors st1 @ [e]\<rparr>
                     | Inr st2 \<Rightarrow>
                         (tp_say (''Created/Updated: '' @ file_path @ '' ('' @ nat_str (length content)
                                  @ '' chars)'') st2)
                           \<lparr>files_created := files_created st2 @ [file_path]\<rparr>)))"

definition read_file_step :: "fs_world \<Rightarrow> string \<Rightarrow> rmatch \<Rightarrow> tp_state \<Rightarrow> tp_state" where
  "read_file_step w base_dir m st =
     (let file_path = group_str m 1
      in case safe_path base_dir file_path of
           None \<Rightarrow> tp_say (''Security: blocked read of '' @ file_path) st
         | Some target \<Rightarrow>
             if w_exists w (length (fs_log st)) target then
               (case do_op w (ReadFile target) st of
                  Inl e \<Rightarrow> tp_say (''Read Error: '' @ e) st
                | Inr st1 \<Rightarrow>
                    (let content = w_read w (length (fs_log st)) target;
                         preview = take 2000 content
                                     @ (if length content > 2000 then ''(truncated...)'' else [])
                     in tp_say (''Read: '' @ file_path)
                          (emit_thought (''### READ FILE: '' @ file_path @ preview) st1)))
             else tp_say (''File not found: '' @ file_path) st)"

definition list_dir_step :: "fs_world \<Rightarrow> string \<Rightarrow> rmatch \<Rightarrow> tp_state \<Rightarrow> tp_state" where
  "list_dir_step w base_dir m st =
     (let dir_path = group_str m 1
      in case safe_path base_dir dir_path of
           None \<Rightarrow> tp_say (''Security: blocked list of '' @ dir_path) st
         | Some target \<Rightarrow>
             if w_exists w (length (fs_log st)) target \<and> w_isdir w (length (fs_log st)) target then
               (case do_op w (ListDir target) st of
                  Inl e \<Rightarrow> tp_say (''List Error: '' @ e) st
                | Inr st1 \<Rightarrow>
                    tp_say (''Listed: '' @ dir_path)
                      (emit_thought
                         (''### LIST DIR: '' @ dir_path
                            @ join_sep [CHR 0x0A] (w_listdir w (length (fs_log st)) target)) st1))
             else tp_say (''Directory not found: '' @ dir_path) st)"

definition create_dir_step :: "fs_world \<Rightarrow> string \<Rightarrow> rmatch \<Rightarrow> tp_state \<Rightarrow> tp_state" where
  "create_dir_step w base_dir m st =
     (let dir_path = group_str m 1
      in case safe_path base_dir dir_path of
           None \<Rightarrow> tp_say (''Security: blocked mkdir '' @ dir_path) st
         | Some target \<Rightarrow>
             (case do_op w (MakeDirs target) st of
                Inl e \<Rightarrow> tp_say (''Mkdir Error: '' @ e) st
              | Inr st1 \<Rightarrow>
                  (tp_say (''Created directory: '' @ dir_path) st1)
                    \<lparr>dirs_created := dirs_created st1 @ [dir_path]\<rparr>))"

definition delete_file_step :: "fs_world \<Rightarrow> string \<Rightarrow> rmatch \<Rightarrow> tp_state \<Rightarrow> tp_state" where
  "delete_file_step w base_dir m st =
     (let file_path = group_str m 1
      in case safe_path base_dir file_path of
           None \<Rightarrow> tp_say (''Security: blocked delete '' @ file_path) st
         | Some target \<Rightarrow>
             if w_exists w (length (fs_log st)) target \<and> w_isfile w (length (fs_log st)) target then
               (case do_op w (Unlink target) st of
                  Inl e \<Rightarrow> tp_say (''Delete Error: '' @ e) st
                | Inr st1 \<Rightarrow>
                    (tp_say (''Deleted file: '' @ file_path) st1)
                      \<lparr>files_deleted := files_deleted st1 @ [file_path]\<rparr>)
             else st)"

definition delete_dir_step :: "fs_world \<Rightarrow> string \<Rightarrow> rmatch \<Rightarrow> tp_state \<Rightarrow> tp_state" where
  "delete_dir_step w base_dir m st =
     (let dir_path = group_str m 1
      in case safe_path base_dir dir_path of
           None \<Rightarrow> tp_say (''Security: blocked rmdir '' @ dir_path) st
         | Some target \<Rightarrow>
             if w_exists w (length (fs_log st)) target \<and> w_isdir w (length (fs_log st)) target then
               (case do_op w (RmTree target) st of
                  Inl e \<Rightarrow> tp_say (''Rmdir Error: '' @ e) st
                | Inr st1 \<Rightarrow> tp_say (''Deleted directory: '' @ dir_path) st1)
             else st)"

definition append_file_step :: "fs_world \<Rightarrow> string \<Rightarrow> rmatch \<Rightarrow> tp_state \<Rightarrow> tp_state" where
  "append_file_step w base_dir m st =
     (let file_path = group_str m 1;
          content = py_strip (group_str m 2)
      in case safe_path base_dir file_path of
           None \<Rightarrow> tp_say (''Security: blocked append to '' @ file_path) st
         | Some target \<Rightarrow>
             (case do_op w (MakeDirs (dirname target)) st of
                Inl e \<Rightarrow> tp_say (''Append Error: '' @ e) st
              | Inr st1 \<Rightarrow>
                  (case do_op w (AppendFile target (content @ [CHR 0x0A])) st1 of
                     Inl e \<Rightarrow> tp_say (''Append Error: '' @ e) st1
                   | Inr st2 \<Rightarrow> tp_say (''Appended to: '' @ file_path) st2)))"

definition copy_step :: "fs_world \<Rightarrow> string \<Rightarrow> rmatch \<Rightarrow> tp_state \<Rightarrow> tp_state" where
  "copy_step w base_dir m st =
     (let src = group_str m 1; dst = group_str m 2
      in case (safe_path base_dir src, safe_path base_dir dst) of
           (Some src_path, Some dst_path) \<Rightarrow>
             (case do_op w (MakeDirs (dirname dst_path)) st of
                Inl e \<Rightarrow> tp_say (''Copy Error: '' @ e) st
              | Inr st1 \<Rightarrow>
                  (case do_op w (if w_isdir w (length (fs_log st1)) src_path
                                 then CopyTree src_path dst_path
                                 else Copy2 src_path dst_path) st1 of
                     Inl e \<Rightarrow> tp_say (''Copy Error: '' @ e) st1
                   | Inr st2 \<Rightarrow> tp_say (''Copied: '' @ src @ '' -> '' @ dst) st2))
         | _ \<Rightarrow> tp_say ''Security: blocked copy'' st)"

definition move_step :: "fs_world \<Rightarrow> string \<Rightarrow> rmatch \<Rightarrow> tp_state \<Rightarrow> tp_state" where
  "move_step w base_dir m st =
     (let src = group_str m 1; dst = group_str m 2
      in case (safe_path base_dir src, safe_path base_dir dst) of
           (Some src_path, Some dst_path) \<Rightarrow>
             (case do_op w (MakeDirs (dirname dst_path)) st of
                Inl e \<Rightarrow> tp_say (''Move Error: '' @ e) st
              | Inr st1 \<Rightarrow>
                  (case do_op w (Move src_path dst_path) st1 of
                     Inl e \<Rightarrow> tp_say (''Move Error: '' @ e) st1
                   | Inr st2 \<Rightarrow> tp_say (''Moved: '' @ src @ '' -> '' @ dst) st2))
         | _ \<Rightarrow> tp_say ''Security: blocked move'' st)"

text \<open>A handler: its pattern's matches in the output, each given to the loop body.\<close>

definition run_handler ::
  "re \<Rightarrow> (rmatch \<Rightarrow> tp_state \<Rightarrow> tp_state) \<Rightarrow> string \<Rightarrow> tp_state \<Rightarrow> tp_state" where
  "run_handler pattern step output st = fold step (finditer pattern output) st"

definition process_write_file :: "fs_world \<Rightarrow> string \<Rightarrow> string \<Rightarrow> tp_state \<Rightarrow> tp_state" where
  "process_write_file w base_dir =
     run_handler (block_re ''write_file'' ''path'') (write_file_step w base_dir)"

definition process_read_file :: "fs_world \<Rightarrow> string \<Rightarrow> string \<Rightarrow> tp_state \<Rightarrow> tp_state" where
  "process_read_file w base_dir =
     run_handler (self_closing_re ''read_file'' ''path'') (read_file_step w base_dir)"

definition process_list_dir :: "fs_world \<Rightarrow> string \<Rightarrow> string \<Rightarrow> tp_state \<Rightarrow> tp_state" where
  "process_list_dir w base_dir =
     run_handler (self_closing_re ''list_dir'' ''path'') (list_dir_step w base_dir)"

definition process_create_dir :: "fs_world \<Rightarrow> string \<Rightarrow> string \<Rightarrow> tp_state \<Rightarrow> tp_state" where
  "process_create_dir w base_dir =
     run_handler (self_closing_re ''create_dir'' ''path'') (create_dir_step w base_dir)"

definition process_delete_file :: "fs_world \<Rightarrow> string \<Rightarrow> string \<Rightarrow> tp_state \<Rightarrow> tp_state" where
  "process_delete_file w base_dir =
     run_handler (self_closing_re ''delete_file'' ''path'') (delete_file_step w base_dir)"

definition process_delete_dir :: "fs_world \<Rightarrow> string \<Rightarrow> string \<Rightarrow> tp_state \<Rightarrow> tp_state" where
  "process_delete_dir w base_dir =
     run_handler (self_closing_re ''delete_dir'' ''path'') (delete_dir_step w base_dir)"

definition process_append_file :: "fs_world \<Rightarrow> string \<Rightarrow> string \<Rightarrow> tp_state \<Rightarrow> tp_state" where
  "process_append_file w base_dir =
     run_handler (block_re ''append_file'' ''path'') (append_file_step w base_dir)"

definition process_copy :: "fs_world \<Rightarrow> string \<Rightarrow> string \<Rightarrow> tp_state \<Rightarrow> tp_state" where
  "process_copy w base_dir = run_handler (from_to_re ''copy'') (copy_step w base_dir)"

definition process_move :: "fs_world \<Rightarrow> string \<Rightarrow> string \<Rightarrow> tp_state \<Rightarrow> tp_state" where
  "process_move w base_dir = run_handler (from_to_re ''move'') (move_step w base_dir)"

text \<open>
  \<open>process_all\<close> runs the handlers in this order. The handlers that follow
  (\<open>scaffold_project\<close>, \<open>install_package\<close>, \<open>install_tool\<close>, \<open>run_command\<close>, \<open>run_build\<close>)
  take no path argument and start subprocesses; they are outside this model.
\<close>

definition process_file_tags :: "fs_world \<Rightarrow> string \<Rightarrow> string \<Rightarrow> tp_state \<Rightarrow> tp_state" where
  "process_file_tags w base_dir output st =
     process_move w base_dir output
       (process_copy w base_dir output
         (process_append_file w base_dir output
           (process_delete_dir w base_dir output
             (process_delete_file w base_dir output
               (process_create_dir w base_dir output
                 (process_list_dir w base_dir output
                   (process_read_file w base_dir output
                     (process_write_file w base_dir output st))))))))"


subsection \<open>Claim C4: a path that leaves the base directory is rejected\<close>

definition escapes :: "string \<Rightarrow> string \<Rightarrow> bool" where
  "escapes base_dir path = (\<not> starts_with (normpath (path_join base_dir path)) base_dir)"

lemma safe_path_escapes: "escapes base_dir path \<Longrightarrow> safe_path base_dir path = None"
  by (simp add: safe_path_def escapes_def Let_def)

lemma safe_path_inside:
  "safe_path base_dir path = Some target \<Longrightarrow> prefix base_dir target"
  by (auto simp: safe_path_def Let_def starts_with_prefix split: if_splits)

lemma fold_keeps_log:
  assumes "\<And>m st. m \<in> set matches \<Longrightarrow> fs_log (step m st) = fs_log st"
  shows "fs_log (fold step matches st) = fs_log st"
  using assms by (induction matches arbitrary: st) simp_all

definition quiet_world :: fs_world where
  "quiet_world = \<lparr>w_exists = (\<lambda>n p. True), w_isfile = (\<lambda>n p. True), w_isdir = (\<lambda>n p. False),
                   w_fault = (\<lambda>n op. None), w_read = (\<lambda>n p. ''data''),
                   w_listdir = (\<lambda>n p. [])\<rparr>"

definition passwd_tag :: string where
  "passwd_tag = ''<write_file path='' @ [CHR 0x22] @ ''../etc/passwd'' @ [CHR 0x22]
                  @ ''>x</write_file>''"

lemmas eval_paths =
  escapes_def normpath_def path_join_def split_sep_def safe_path_def dirname_def

lemmas eval_re =
  finditer_def re_remove_def seq_def tag_open_def self_closing_re_def block_re_def
  from_to_re_def group_def group_str_def is_space_def

text \<open>
  Claim C4. A tag is one match \<open>m\<close> of its handler's pattern, and its path argument is
  group 1 of the match (for \<open>copy\<close> and \<open>move\<close> also group 2, the \<open>to\<close> attribute). When
  the normalized join of the base directory with that argument does not begin with the base
  directory, the handler's loop body performs no filesystem operation at all for the tag:
  nothing is written, appended, deleted, copied, moved, created, read or listed. For a
  blocked \<open>write_file\<close> the entry \<open>Blocked write: <path>\<close> is added to \<open>results.errors\<close> and
  nothing to \<open>files_created\<close>.
\<close>

theorem escaping_path_rejected:
  assumes "escapes base_dir p"
  shows "(group_str m 1 = p \<longrightarrow>
            fs_log (write_file_step w base_dir m st) = fs_log st
          \<and> errors (write_file_step w base_dir m st) = errors st @ [''Blocked write: '' @ p]
          \<and> files_created (write_file_step w base_dir m st) = files_created st
          \<and> fs_log (append_file_step w base_dir m st) = fs_log st
          \<and> fs_log (delete_file_step w base_dir m st) = fs_log st
          \<and> fs_log (delete_dir_step w base_dir m st) = fs_log st
          \<and> fs_log (create_dir_step w base_dir m st) = fs_log st
          \<and> fs_log (read_file_step w base_dir m st) = fs_log st
          \<and> fs_log (list_dir_step w base_dir m st) = fs_log st)
       \<and> (group_str m 1 = p \<or> group_str m 2 = p \<longrightarrow>
            fs_log (copy_step w base_dir m st) = fs_log st
          \<and> fs_log (move_step w base_dir m st) = fs_log st)"
  using safe_path_escapes [OF assms]
  by (auto simp: write_file_step_def append_file_step_def delete_file_step_def
        delete_dir_step_def create_dir_step_def read_file_step_def list_dir_step_def
        copy_step_def move_step_def tp_say_def Let_def split: option.splits)

theorem escaping_path_rejected_witness:
  "escapes ''/srv/app'' ''../etc/passwd''
   \<and> map (\<lambda>m. group_str m 1) (finditer (block_re ''write_file'' ''path'') passwd_tag)
       = [''../etc/passwd'']
   \<and> fs_log (process_write_file quiet_world ''/srv/app'' passwd_tag tp_init) = []
   \<and> errors (process_write_file quiet_world ''/srv/app'' passwd_tag tp_init)
       = [''Blocked write: ../etc/passwd'']"
proof -
  have esc: "escapes ''/srv/app'' ''../etc/passwd''"
    by (simp add: eval_paths)
  obtain m where found: "finditer (block_re ''write_file'' ''path'') passwd_tag = [m]"
    and g: "group_str m 1 = ''../etc/passwd''"
    by (simp add: passwd_tag_def eval_re)
  from escaping_path_rejected [OF esc, of m quiet_world tp_init] g
  have "fs_log (write_file_step quiet_world ''/srv/app'' m tp_init) = fs_log tp_init"
    and "errors (write_file_step quiet_world ''/srv/app'' m tp_init)
           = errors tp_init @ [''Blocked write: ../etc/passwd'']"
    by simp_all
  with esc found g show ?thesis
    by (simp add: process_write_file_def run_handler_def tp_init_def)
qed


section \<open>The failover manager (providers/failover\_manager.py)\<close>

text \<open>
  Times are the readings of \<open>time.time()\<close>, modelled as real numbers. The clock, the
  task and the tier manager of \<open>core/model_tiers.py\<close> belong to the world outside the
  manager: the \<open>k\<close>-th reading of the clock, the outcome of the task at the \<open>i\<close>-th
  attempt, and the tier manager's answer at its \<open>k\<close>-th consultation are parameters.
  A task raises only exceptions of class \<open>Exception\<close>.
\<close>

datatype failover_reason =
  RATE_LIMIT | TIMEOUT | API_ERROR | AUTHENTICATION | QUOTA_EXCEEDED | MODEL_UNAVAILABLE | UNKNOWN

fun reason_value :: "failover_reason \<Rightarrow> string" where
  "reason_value RATE_LIMIT = ''rate_limit''"
| "reason_value TIMEOUT = ''timeout''"
| "reason_value API_ERROR = ''api_error''"
| "reason_value AUTHENTICATION = ''authentication''"
| "reason_value QUOTA_EXCEEDED = ''quota_exceeded''"
| "reason_value MODEL_UNAVAILABLE = ''model_unavailable''"
| "reason_value UNKNOWN = ''unknown''"

fun cooldown_map :: "failover_reason \<Rightarrow> real" where
  "cooldown_map RATE_LIMIT = 300"
| "cooldown_map QUOTA_EXCEEDED = 3600"
| "cooldown_map TIMEOUT = 60"
| "cooldown_map API_ERROR = 120"
| "cooldown_map AUTHENTICATION = 0"
| "cooldown_map MODEL_UNAVAILABLE = 600"
| "cooldown_map UNKNOWN = 60"

record provider_health =
  ph_provider_id :: string
  ph_provider_type :: string
  ph_model :: string
  ph_success_count :: nat
  ph_failure_count :: nat
  ph_last_success :: real
  ph_last_failure :: real
  ph_cooldown_until :: real
  ph_priority :: int
  ph_avg_response_time :: real

definition new_health :: "string \<Rightarrow> string \<Rightarrow> string \<Rightarrow> int \<Rightarrow> provider_health" where
  "new_health pid ptype model prio =
     \<lparr>ph_provider_id = pid, ph_provider_type = ptype, ph_model = model, ph_success_count = 0,
      ph_failure_count = 0, ph_last_success = 0, ph_last_failure = 0, ph_cooldown_until = 0,
      ph_priority = prio, ph_avg_response_time = 0\<rparr>"

definition success_rate :: "provider_health \<Rightarrow> real" where
  "success_rate h =
     (let total = ph_success_count h + ph_failure_count h
      in if total > 0 then real (ph_success_count h) / real total else 1)"

record failover_config =
  fc_enabled :: bool
  fc_max_retries :: int
  fc_retry_delay :: real
  fc_model_groups :: "(string \<times> string list) list"

definition default_config :: failover_config where
  "default_config =
     \<lparr>fc_enabled = True, fc_max_retries = 3, fc_retry_delay = 1,
      fc_model_groups =
        [(''high_capability'',
            [''opus'', ''claude-opus'', ''gpt-4'', ''gemini-1.5-pro'',
             ''llama-3.3-70b-versatile'', ''deepseek-r1'']),
         (''balanced'',
            [''sonnet'', ''claude-sonnet'', ''gpt-4-turbo'', ''gemini-1.5-flash'',
             ''llama3-8b-8192'', ''mistral'', ''llama3'']),
         (''fast'',
            [''haiku'', ''claude-haiku'', ''gpt-3.5-turbo'', ''gemini-2.0-flash'',
             ''phi3'', ''mixtral-8x7b-32768''])]\<rparr>"

record failover_manager =
  fm_config :: failover_config
  fm_fallback_chains :: "(string \<times> (string \<times> string) list) list"

datatype task_value = PyStr string | PyObj

datatype task_outcome = Returns task_value | Raises string

record fo_world =
  fo_task :: "nat \<Rightarrow> string \<Rightarrow> string \<Rightarrow> task_outcome"
  fo_clock :: "nat \<Rightarrow> real"
  tier_enabled :: bool
  tier_best :: "nat \<Rightarrow> string \<Rightarrow> string \<Rightarrow> string option"

text \<open>
  What an observer sees of a run: each call of the task, each \<open>asyncio.sleep\<close>, each call
  of \<open>on_failover\<close>, each \<open>report_limit_hit\<close>.
\<close>

datatype fo_event =
    Tried string string
  | Slept real
  | Notified string string string string string
  | LimitReported string

record fo_state =
  fo_providers :: "(string \<times> provider_health) list"
  fo_ticks :: nat
  fo_tier_calls :: nat
  fo_events :: "fo_event list"

definition pkey :: "string \<Rightarrow> string \<Rightarrow> string" where
  "pkey provider_id model = provider_id @ ''/'' @ model"

definition read_clock :: "fo_world \<Rightarrow> fo_state \<Rightarrow> real \<times> fo_state" where
  "read_clock w st = (fo_clock w (fo_ticks st), st\<lparr>fo_ticks := Suc (fo_ticks st)\<rparr>)"

definition is_available :: "fo_world \<Rightarrow> provider_health \<Rightarrow> fo_state \<Rightarrow> bool \<times> fo_state" where
  "is_available w h st = (let (t, st') = read_clock w st in (t > ph_cooldown_until h, st'))"

definition record_success :: "fo_world \<Rightarrow> string \<Rightarrow> real \<Rightarrow> fo_state \<Rightarrow> fo_state" where
  "record_success w k response_time st =
     (case map_of (fo_providers st) k of
        None \<Rightarrow> st
      | Some h \<Rightarrow>
          let (t, st1) = read_clock w st;
              h' = h\<lparr>ph_success_count := ph_success_count h + 1, ph_last_success := t,
                     ph_avg_response_time :=
                       (if ph_avg_response_time h = 0 then response_time
                        else ph_avg_response_time h * 0.9 + response_time * 0.1)\<rparr>
          in st1\<lparr>fo_providers := AList.update k h' (fo_providers st1)\<rparr>)"

definition record_failure :: "fo_world \<Rightarrow> string \<Rightarrow> failover_reason \<Rightarrow> fo_state \<Rightarrow> fo_state" where
  "record_failure w k reason st =
     (case map_of (fo_providers st) k of
        None \<Rightarrow> st
      | Some h \<Rightarrow>
          let (t1, st1) = read_clock w st;
              (t2, st2) = read_clock w st1;
              h' = h\<lparr>ph_failure_count := ph_failure_count h + 1, ph_last_failure := t1,
                     ph_cooldown_until := t2 + cooldown_map reason\<rparr>
          in st2\<lparr>fo_providers := AList.update k h' (fo_providers st2)\<rparr>)"

definition detect_failure_reason :: "string \<Rightarrow> failover_reason" where
  "detect_failure_reason error =
     (let error_lower = lower error;
          any = (\<lambda>xs. list_ex (\<lambda>x. py_in x error_lower) xs)
      in if any [''rate limit'', ''too many requests'', ''429'', ''throttl''] then RATE_LIMIT
         else if any [''timeout'', ''timed out''] then TIMEOUT
         else if any [''quota'', ''exceeded'', ''limit exceeded''] then QUOTA_EXCEEDED
         else if any [''auth'', ''unauthorized'', ''401'', ''403'', ''api key''] then AUTHENTICATION
         else if any [''not found'', ''404'', ''unavailable'', ''does not exist'']
              then MODEL_UNAVAILABLE
         else if any [''error'', ''500'', ''502'', ''503''] then API_ERROR
         else UNKNOWN)"

text \<open>
  The two loops over \<open>self.providers\<close> in \<open>_get_fallback_candidates\<close>: the entry of the
  failing key is skipped, then an entry in cooldown (one reading of the clock), then, in the
  first loop, an entry whose model is not in the group.
\<close>

fun available_entries ::
  "fo_world \<Rightarrow> string \<Rightarrow> (string \<Rightarrow> bool) \<Rightarrow> (string \<times> provider_health) list \<Rightarrow> fo_state
    \<Rightarrow> (string \<times> string) list \<times> fo_state" where
  "available_entries w k wanted [] st = ([], st)"
| "available_entries w k wanted ((pk, h) # rest) st =
     (if pk = k then available_entries w k wanted rest st
      else
        let (ok, st1) = is_available w h st
        in if \<not> ok then available_entries w k wanted rest st1
           else if wanted (ph_model h) then
             (let (more, st2) = available_entries w k wanted rest st1
              in ((ph_provider_id h, ph_model h) # more, st2))
           else available_entries w k wanted rest st1)"

text \<open>\<open>list.sort(key=...)\<close> is stable: an element goes behind those that are not greater.\<close>

fun insort_by :: "('a \<Rightarrow> 'a \<Rightarrow> bool) \<Rightarrow> 'a \<Rightarrow> 'a list \<Rightarrow> 'a list" where
  "insort_by lt x [] = [x]"
| "insort_by lt x (y # ys) = (if lt x y then x # y # ys else y # insort_by lt x ys)"

definition sort_by :: "('a \<Rightarrow> 'a \<Rightarrow> bool) \<Rightarrow> 'a list \<Rightarrow> 'a list" where
  "sort_by lt xs = foldl (\<lambda>acc x. insort_by lt x acc) [] xs"

definition health_of :: "fo_state \<Rightarrow> string \<times> string \<Rightarrow> provider_health" where
  "health_of st x =
     (case map_of (fo_providers st) (pkey (fst x) (snd x)) of
        None \<Rightarrow> new_health [] [] [] 0
      | Some h \<Rightarrow> h)"

definition by_priority_and_rate :: "fo_state \<Rightarrow> string \<times> string \<Rightarrow> string \<times> string \<Rightarrow> bool" where
  "by_priority_and_rate st x y =
     (ph_priority (health_of st x) < ph_priority (health_of st y)
      \<or> (ph_priority (health_of st x) = ph_priority (health_of st y)
          \<and> - success_rate (health_of st x) < - success_rate (health_of st y)))"

definition by_priority :: "fo_state \<Rightarrow> string \<times> string \<Rightarrow> string \<times> string \<Rightarrow> bool" where
  "by_priority st x y = (ph_priority (health_of st x) < ph_priority (health_of st y))"

definition task_categories :: "string list" where
  "task_categories = [''coding'', ''writing'', ''designing'', ''graphics'', ''art'', ''general'']"

definition automatic_candidates ::
  "fo_world \<Rightarrow> failover_manager \<Rightarrow> string \<Rightarrow> string \<Rightarrow> fo_state
    \<Rightarrow> (string \<times> string) list \<times> fo_state" where
  "automatic_candidates w mgr provider_id model st =
     (let k = pkey provider_id model;
          model_group = find (\<lambda>(g, models). lower model \<in> set (map lower models))
                          (fc_model_groups (fm_config mgr));
          (candidates, st1) =
             (case model_group of
                None \<Rightarrow> ([], st)
              | Some (g, models) \<Rightarrow>
                  available_entries w k (\<lambda>m. lower m \<in> set (map lower models))
                    (fo_providers st) st);
          sorted = sort_by (by_priority_and_rate st1) candidates
      in if sorted = [] then
           (let (anyone, st2) = available_entries w k (\<lambda>m. True) (fo_providers st1) st1
            in (sort_by (by_priority st2) anyone, st2))
         else (sorted, st1))"

definition get_fallback_candidates ::
  "fo_world \<Rightarrow> failover_manager \<Rightarrow> string \<Rightarrow> string \<Rightarrow> string option \<Rightarrow> fo_state
    \<Rightarrow> (string \<times> string) list \<times> fo_state" where
  "get_fallback_candidates w mgr provider_id model task_category st =
     (case map_of (fm_fallback_chains mgr) (pkey provider_id model) of
        Some chain \<Rightarrow> (chain, st)
      | None \<Rightarrow>
          (case (if tier_enabled w then task_category else None) of
             None \<Rightarrow> automatic_candidates w mgr provider_id model st
           | Some cat \<Rightarrow>
               if cat = [] \<or> lower cat \<notin> set task_categories
               then automatic_candidates w mgr provider_id model st
               else
                 (let tier_model = tier_best w (fo_tier_calls st) (lower cat) provider_id;
                      st1 = st\<lparr>fo_tier_calls := Suc (fo_tier_calls st)\<rparr>
                  in case tier_model of
                       None \<Rightarrow> automatic_candidates w mgr provider_id model st1
                     | Some tm \<Rightarrow>
                         if CHR '':'' \<in> set tm then
                           (let fallback_provider = takeWhile (\<lambda>c. c \<noteq> CHR '':'') tm;
                                fallback_model = tl (dropWhile (\<lambda>c. c \<noteq> CHR '':'') tm)
                            in if fallback_provider \<noteq> provider_id \<or> fallback_model \<noteq> model
                               then ([(fallback_provider, fallback_model)],
                                     st1\<lparr>fo_events := fo_events st1 @ [LimitReported provider_id]\<rparr>)
                               else automatic_candidates w mgr provider_id model st1)
                         else automatic_candidates w mgr provider_id model st1)))"

text \<open>
  The search for the next fallback: the first candidate whose key is not among the
  attempts' keys, is registered and is out of cooldown.
\<close>

fun next_fallback ::
  "fo_world \<Rightarrow> string list \<Rightarrow> (string \<times> string) list \<Rightarrow> fo_state
    \<Rightarrow> (string \<times> string) option \<times> fo_state" where
  "next_fallback w attempted [] st = (None, st)"
| "next_fallback w attempted ((fb_provider, fb_model) # rest) st =
     (if pkey fb_provider fb_model \<notin> set attempted then
        (case map_of (fo_providers st) (pkey fb_provider fb_model) of
           None \<Rightarrow> next_fallback w attempted rest st
         | Some h \<Rightarrow>
             let (ok, st1) = is_available w h st
             in if ok then (Some (fb_provider, fb_model), st1)
                else next_fallback w attempted rest st1)
      else next_fallback w attempted rest st)"

definition exhausted_message :: "string option \<Rightarrow> string" where
  "exhausted_message last_error =
     ''All failover attempts exhausted. Last error: ''
       @ (case last_error of None \<Rightarrow> ''None'' | Some e \<Rightarrow> e)"

definition key_of :: "string \<times> string \<Rightarrow> string" where
  "key_of x = pkey (fst x) (snd x)"

text \<open>
  One call of the task inside the \<open>try\<close>: a string result that starts with \<open>Error:\<close> is
  raised as an exception, so that it ends in the \<open>except\<close> branch like an exception of the
  task itself; \<open>Inl\<close> carries \<open>str(e)\<close>.
\<close>

definition attempt_outcome :: "fo_world \<Rightarrow> nat \<Rightarrow> string \<Rightarrow> string \<Rightarrow> string + task_value" where
  "attempt_outcome w i p m =
     (case fo_task w i p m of
        Raises e \<Rightarrow> Inl e
      | Returns (PyStr r) \<Rightarrow> if starts_with r ''Error:'' then Inl r else Inr (PyStr r)
      | Returns PyObj \<Rightarrow> Inr PyObj)"

text \<open>
  The loop \<open>for attempt in range(max_retries + 1)\<close>. \<open>n\<close> counts the iterations left and
  \<open>i\<close> those done; the list \<open>attempts\<close> of the source is \<open>earlier @ [cur]\<close>, so that
  \<open>attempts[-1]\<close> is \<open>cur\<close>, the pair \<open>(current_provider, current_model)\<close>.
\<close>

fun failover_loop ::
  "fo_world \<Rightarrow> failover_manager \<Rightarrow> string option \<Rightarrow> nat \<Rightarrow> nat \<Rightarrow> (string \<times> string) list
    \<Rightarrow> string \<times> string \<Rightarrow> string option \<Rightarrow> fo_state
    \<Rightarrow> (task_value \<times> string \<times> string) \<times> fo_state" where
  "failover_loop w mgr cat 0 i earlier cur last_error st =
     ((PyStr (exhausted_message last_error), fst cur, snd cur), st)"
| "failover_loop w mgr cat (Suc n) i earlier cur last_error st =
     (let (start_time, st1) = read_clock w st;
          st2 = st1\<lparr>fo_events := fo_events st1 @ [Tried (fst cur) (snd cur)]\<rparr>
      in case attempt_outcome w i (fst cur) (snd cur) of
           Inr result \<Rightarrow>
             (let (now, st3) = read_clock w st2
              in ((result, fst cur, snd cur),
                  record_success w (key_of cur) (now - start_time) st3))
         | Inl e \<Rightarrow>
             (let st3 = record_failure w (key_of cur) (detect_failure_reason e) st2;
                  (fallbacks, st4) = get_fallback_candidates w mgr (fst cur) (snd cur) cat st3;
                  (next, st5) = next_fallback w (map key_of (earlier @ [cur])) fallbacks st4
              in case next of
                   Some nf \<Rightarrow>
                     failover_loop w mgr cat n (Suc i) (earlier @ [cur]) nf (Some e)
                       (st5\<lparr>fo_events := fo_events st5 @
                              [Notified (fst cur) (snd cur) (fst nf) (snd nf)
                                 (reason_value (detect_failure_reason e)),
                               Slept (fc_retry_delay (fm_config mgr))]\<rparr>)
                 | None \<Rightarrow>
                     ((PyStr (exhausted_message (Some e)), fst cur, snd cur), st5)))"

declare failover_loop.simps(2) [simp del]

definition execute_with_failover ::
  "fo_world \<Rightarrow> failover_manager \<Rightarrow> string \<Rightarrow> string \<Rightarrow> string option \<Rightarrow> fo_state
    \<Rightarrow> (exn + task_value \<times> string \<times> string) \<times> fo_state" where
  "execute_with_failover w mgr provider_id model task_category st =
     (if \<not> fc_enabled (fm_config mgr) then
        (let st1 = st\<lparr>fo_events := fo_events st @ [Tried provider_id model]\<rparr>
         in case fo_task w 0 provider_id model of
              Raises e \<Rightarrow> (Inl (RaisedException e), st1)
            | Returns result \<Rightarrow> (Inr (result, provider_id, model), st1))
      else
        (let (r, st1) = failover_loop w mgr task_category
                          (nat (fc_max_retries (fm_config mgr) + 1)) 0 [] (provider_id, model)
                          None st
         in (Inr r, st1)))"


text \<open>\<open>register_provider\<close> and the manager that \<open>get_failover_manager\<close> builds.\<close>

definition register_provider ::
  "string \<Rightarrow> string \<Rightarrow> string list \<Rightarrow> int \<Rightarrow> (string \<times> provider_health) list
    \<Rightarrow> (string \<times> provider_health) list" where
  "register_provider provider_id provider_type models priority ps =
     fold (\<lambda>model acc.
             AList.update (pkey provider_id model)
               (new_health provider_id provider_type model priority) acc) models ps"

definition default_providers :: "(string \<times> provider_health) list" where
  "default_providers =
     register_provider ''google_ai'' ''google_ai''
       [''gemini-1.5-pro'', ''gemini-1.5-flash'', ''gemini-2.0-flash''] 25
       (register_provider ''ollama'' ''ollama'' [''deepseek-r1'', ''llama3'', ''mistral'', ''phi3''] 30
         (register_provider ''groq'' ''groq''
            [''llama-3.3-70b-versatile'', ''llama3-8b-8192'', ''mixtral-8x7b-32768''] 20
            (register_provider ''claude_code'' ''claude_code''
               [''opus'', ''sonnet'', ''haiku''] 10 [])))"

definition default_manager :: failover_manager where
  "default_manager =
     \<lparr>fm_config = default_config,
      fm_fallback_chains =
        [(pkey ''claude_code'' ''opus'',
            [(''claude_code'', ''sonnet''), (''groq'', ''llama-3.3-70b-versatile''),
             (''google_ai'', ''gemini-1.5-pro''), (''ollama'', ''deepseek-r1'')]),
         (pkey ''claude_code'' ''sonnet'',
            [(''groq'', ''llama-3.3-70b-versatile''), (''google_ai'', ''gemini-1.5-flash''),
             (''ollama'', ''llama3''), (''claude_code'', ''haiku'')])]\<rparr>"

definition fo_init :: fo_state where
  "fo_init = \<lparr>fo_providers = default_providers, fo_ticks = 0, fo_tier_calls = 0,
               fo_events = []\<rparr>"

subsection \<open>What a run of the failover loop looks like\<close>

fun tried_of :: "fo_event list \<Rightarrow> (string \<times> string) list" where
  "tried_of [] = []"
| "tried_of (Tried p m # es) = (p, m) # tried_of es"
| "tried_of (e # es) = tried_of es"

text \<open>The attempts and the sleeps of a log, without the notifications.\<close>

fun pace :: "fo_event list \<Rightarrow> fo_event list" where
  "pace [] = []"
| "pace (Tried p m # es) = Tried p m # pace es"
| "pace (Slept d # es) = Slept d # pace es"
| "pace (e # es) = pace es"

text \<open>
  Attempts are paced by \<open>d\<close>: every attempt but the last is followed by exactly one sleep
  of \<open>d\<close> seconds before the next attempt (the last attempt may be followed by one too).
\<close>

fun paced :: "real \<Rightarrow> fo_event list \<Rightarrow> bool" where
  "paced d [] = True"
| "paced d [Tried p m] = True"
| "paced d (Tried p m # Slept x # rest) = (x = d \<and> paced d rest)"
| "paced d es = False"

definition succeeded :: "task_value \<Rightarrow> bool" where
  "succeeded v = (case v of PyStr r \<Rightarrow> \<not> starts_with r ''Error:'' | PyObj \<Rightarrow> True)"

lemma tried_of_append: "tried_of (xs @ ys) = tried_of xs @ tried_of ys"
  by (induction xs rule: tried_of.induct) simp_all

lemma pace_append: "pace (xs @ ys) = pace xs @ pace ys"
  by (induction xs rule: pace.induct) simp_all

lemma read_clock_events: "read_clock w st = (t, st') \<Longrightarrow> fo_events st' = fo_events st"
  by (auto simp: read_clock_def)

lemma is_available_events: "is_available w h st = (b, st') \<Longrightarrow> fo_events st' = fo_events st"
  by (auto simp: is_available_def read_clock_def)

lemma record_success_events: "fo_events (record_success w k rt st) = fo_events st"
  by (auto simp: record_success_def read_clock_def Let_def split: option.splits prod.splits)

lemma record_failure_events: "fo_events (record_failure w k r st) = fo_events st"
  by (auto simp: record_failure_def read_clock_def Let_def split: option.splits prod.splits)

lemma available_entries_events:
  "available_entries w k wanted ps st = (cs, st') \<Longrightarrow> fo_events st' = fo_events st"
proof (induction ps arbitrary: st cs st')
  case Nil
  then show ?case by simp
next
  case (Cons a ps)
  obtain pk h where a: "a = (pk, h)" by (cases a)
  obtain ok st1 where av: "is_available w h st = (ok, st1)" by (cases "is_available w h st")
  from is_available_events [OF av] have e1: "fo_events st1 = fo_events st" .
  show ?case
  proof (cases "pk = k")
    case True
    with Cons a show ?thesis by simp
  next
    case False
    obtain more st2 where rec: "available_entries w k wanted ps st1 = (more, st2)"
      by (cases "available_entries w k wanted ps st1")
    from Cons.IH [OF rec] e1 have e2: "fo_events st2 = fo_events st" by simp
    from Cons.prems a False av rec have "st' = st2"
      by (auto split: if_splits)
    with e2 show ?thesis by simp
  qed
qed

lemma automatic_candidates_events:
  "automatic_candidates w mgr p m st = (cs, st') \<Longrightarrow> fo_events st' = fo_events st"
  unfolding automatic_candidates_def
  by (auto simp: Let_def split: option.splits prod.splits if_splits
           dest!: available_entries_events)

lemma get_fallback_candidates_events:
  "get_fallback_candidates w mgr p m cat st = (cs, st') \<Longrightarrow>
     \<exists>xs. fo_events st' = fo_events st @ xs \<and> tried_of xs = [] \<and> pace xs = []"
  unfolding get_fallback_candidates_def
  by (auto simp: Let_def split: option.splits prod.splits if_splits
           dest!: automatic_candidates_events)

lemma next_fallback_events:
  "next_fallback w attempted fbs st = (nf, st') \<Longrightarrow> fo_events st' = fo_events st"
proof (induction fbs arbitrary: st)
  case Nil
  then show ?case by simp
next
  case (Cons a fbs)
  obtain p m where a: "a = (p, m)" by (cases a)
  show ?case
  proof (cases "pkey p m \<notin> set attempted")
    case False
    with Cons a show ?thesis by simp
  next
    case True
    show ?thesis
    proof (cases "map_of (fo_providers st) (pkey p m)")
      case None
      with Cons a True show ?thesis by simp
    next
      case (Some h)
      obtain ok st1 where av: "is_available w h st = (ok, st1)" by (cases "is_available w h st")
      from is_available_events [OF av] have e1: "fo_events st1 = fo_events st" .
      show ?thesis
      proof (cases ok)
        case True
        with Cons.prems a \<open>pkey p m \<notin> set attempted\<close> Some av e1 show ?thesis by simp
      next
        case False
        with Cons.prems a \<open>pkey p m \<notin> set attempted\<close> Some av
        have "next_fallback w attempted fbs st1 = (nf, st')" by simp
        from Cons.IH [OF this] e1 show ?thesis by simp
      qed
    qed
  qed
qed

lemma next_fallback_untried:
  "next_fallback w attempted fbs st = (Some nf, st') \<Longrightarrow> key_of nf \<notin> set attempted"
proof (induction fbs arbitrary: st)
  case Nil
  then show ?case by simp
next
  case (Cons a fbs)
  obtain p m where a: "a = (p, m)" by (cases a)
  from Cons.prems a show ?case
    by (auto simp: key_of_def Let_def split: if_splits option.splits prod.splits
             dest: Cons.IH)
qed

lemma attempt_outcome_Inr:
  "attempt_outcome w i p m = Inr v \<longleftrightarrow> fo_task w i p m = Returns v \<and> succeeded v"
  by (auto simp: attempt_outcome_def succeeded_def split: task_outcome.splits task_value.splits)

text \<open>The \<open>j\<close>-th call of the task, made for the pair \<open>x\<close>, ends in the \<open>except\<close> branch.\<close>

definition failed_attempt :: "fo_world \<Rightarrow> nat \<Rightarrow> string \<times> string \<Rightarrow> bool" where
  "failed_attempt w j x = (\<exists>e. attempt_outcome w j (fst x) (snd x) = Inl e)"

lemma failover_loop_run:
  assumes "failover_loop w mgr cat n i earlier cur last_error st = ((v, fp, fm), st')"
      and "key_of cur \<notin> set (map key_of earlier)"
  shows "\<exists>new. fo_events st' = fo_events st @ new
           \<and> length (tried_of new) \<le> n
           \<and> distinct (map key_of (tried_of new))
           \<and> set (map key_of (tried_of new)) \<inter> set (map key_of earlier) = {}
           \<and> paced (fc_retry_delay (fm_config mgr)) (pace new)
           \<and> ((tried_of new \<noteq> [] \<and> last (tried_of new) = (fp, fm)
                 \<and> fo_task w (i + length (tried_of new) - 1) fp fm = Returns v \<and> succeeded v
                 \<and> (\<forall>j < length (tried_of new) - 1. failed_attempt w (i + j) (tried_of new ! j)))
              \<or> ((\<exists>e. v = PyStr (exhausted_message e))
                 \<and> (\<forall>j < length (tried_of new). failed_attempt w (i + j) (tried_of new ! j))
                 \<and> (length (tried_of new) = n
                     \<or> (tried_of new \<noteq> [] \<and> last (tried_of new) = (fp, fm)))))"
  using assms
proof (induction n arbitrary: i earlier cur last_error st)
  case 0
  then show ?case by (auto intro!: exI [of _ "[]"])
next
  case (Suc n)
  obtain t0 st1 where rc: "read_clock w st = (t0, st1)" by (cases "read_clock w st")
  define st2 where "st2 = st1\<lparr>fo_events := fo_events st1 @ [Tried (fst cur) (snd cur)]\<rparr>"
  have e2: "fo_events st2 = fo_events st @ [Tried (fst cur) (snd cur)]"
    using read_clock_events [OF rc] by (simp add: st2_def)
  show ?case
  proof (cases "attempt_outcome w i (fst cur) (snd cur)")
    case (Inr result)
    obtain now st3 where rc2: "read_clock w st2 = (now, st3)" by (cases "read_clock w st2")
    from Suc.prems(1) Inr rc rc2
    have res: "v = result" "fp = fst cur" "fm = snd cur"
      and st': "st' = record_success w (key_of cur) (now - t0) st3"
      by (auto simp: failover_loop.simps(2) st2_def)
    have "fo_events st' = fo_events st @ [Tried (fst cur) (snd cur)]"
      using st' read_clock_events [OF rc2] e2 by (simp add: record_success_events)
    moreover from Inr res have "fo_task w i fp fm = Returns v \<and> succeeded v"
      by (simp add: attempt_outcome_Inr)
    ultimately show ?thesis
      using res Suc.prems(2) by (intro exI [of _ "[Tried (fst cur) (snd cur)]"]) auto
  next
    case (Inl e)
    then have failed: "failed_attempt w i cur" by (auto simp: failed_attempt_def)
    define st3 where "st3 = record_failure w (key_of cur) (detect_failure_reason e) st2"
    obtain fallbacks st4 where
      gf: "get_fallback_candidates w mgr (fst cur) (snd cur) cat st3 = (fallbacks, st4)"
      by (cases "get_fallback_candidates w mgr (fst cur) (snd cur) cat st3")
    obtain nxt st5 where
      nf: "next_fallback w (map key_of (earlier @ [cur])) fallbacks st4 = (nxt, st5)"
      by (cases "next_fallback w (map key_of (earlier @ [cur])) fallbacks st4")
    from get_fallback_candidates_events [OF gf] obtain xs where
      xs: "fo_events st4 = fo_events st3 @ xs" "tried_of xs = []" "pace xs = []" by blast
    have e5: "fo_events st5 = fo_events st @ Tried (fst cur) (snd cur) # xs"
      using next_fallback_events [OF nf] xs e2
      by (simp add: st3_def record_failure_events)
    show ?thesis
    proof (cases nxt)
      case None
      from Suc.prems(1) Inl rc gf nf None
      have res: "v = PyStr (exhausted_message (Some e))" "fp = fst cur" "fm = snd cur" "st' = st5"
        by (auto simp: failover_loop.simps(2) st2_def st3_def)
      show ?thesis
        using res e5 xs Suc.prems(2) failed
        by (intro exI [of _ "Tried (fst cur) (snd cur) # xs"]) auto
    next
      case (Some nf')
      define st6 where "st6 = st5\<lparr>fo_events := fo_events st5 @
          [Notified (fst cur) (snd cur) (fst nf') (snd nf')
             (reason_value (detect_failure_reason e)),
           Slept (fc_retry_delay (fm_config mgr))]\<rparr>"
      from Suc.prems(1) Inl rc gf nf Some
      have rec: "failover_loop w mgr cat n (Suc i) (earlier @ [cur]) nf' (Some e) st6
                   = ((v, fp, fm), st')"
        by (simp add: failover_loop.simps(2) st2_def st3_def st6_def)
      from next_fallback_untried nf Some
      have fresh: "key_of nf' \<notin> set (map key_of (earlier @ [cur]))" by blast
      from Suc.IH [OF rec fresh] obtain new' where
        n1: "fo_events st' = fo_events st6 @ new'"
        and n2: "length (tried_of new') \<le> n"
        and n3: "distinct (map key_of (tried_of new'))"
        and n4: "set (map key_of (tried_of new')) \<inter> set (map key_of (earlier @ [cur])) = {}"
        and n5: "paced (fc_retry_delay (fm_config mgr)) (pace new')"
        and n6: "(tried_of new' \<noteq> [] \<and> last (tried_of new') = (fp, fm)
                 \<and> fo_task w (Suc i + length (tried_of new') - 1) fp fm = Returns v \<and> succeeded v
                 \<and> (\<forall>j < length (tried_of new') - 1. failed_attempt w (Suc i + j) (tried_of new' ! j)))
              \<or> ((\<exists>e. v = PyStr (exhausted_message e))
                 \<and> (\<forall>j < length (tried_of new'). failed_attempt w (Suc i + j) (tried_of new' ! j))
                 \<and> (length (tried_of new') = n
                     \<or> (tried_of new' \<noteq> [] \<and> last (tried_of new') = (fp, fm))))"
        by blast
      let ?new = "Tried (fst cur) (snd cur) # xs @
          [Notified (fst cur) (snd cur) (fst nf') (snd nf')
             (reason_value (detect_failure_reason e)),
           Slept (fc_retry_delay (fm_config mgr))] @ new'"
      have t: "tried_of ?new = cur # tried_of new'"
        using xs by (simp add: tried_of_append)
      have p: "pace ?new = Tried (fst cur) (snd cur) # Slept (fc_retry_delay (fm_config mgr)) # pace new'"
        using xs by (simp add: pace_append)
      have a1: "fo_events st' = fo_events st @ ?new"
        using n1 e5 by (simp add: st6_def)
      have a2: "length (tried_of ?new) \<le> Suc n" using n2 t by simp
      have a3: "distinct (map key_of (tried_of ?new))" using n3 n4 t by auto
      have a4: "set (map key_of (tried_of ?new)) \<inter> set (map key_of earlier) = {}"
        using n4 t Suc.prems(2) by auto
      have a5: "paced (fc_retry_delay (fm_config mgr)) (pace ?new)" using n5 p by simp
      have shift: "\<And>k. (\<forall>j < k. failed_attempt w (Suc i + j) (tried_of new' ! j))
                  \<Longrightarrow> (\<forall>j < Suc k. failed_attempt w (i + j) ((cur # tried_of new') ! j))"
        using failed by (auto simp: nth_Cons split: nat.splits)
      have a6: "(tried_of ?new \<noteq> [] \<and> last (tried_of ?new) = (fp, fm)
                 \<and> fo_task w (i + length (tried_of ?new) - 1) fp fm = Returns v \<and> succeeded v
                 \<and> (\<forall>j < length (tried_of ?new) - 1. failed_attempt w (i + j) (tried_of ?new ! j)))
              \<or> ((\<exists>e. v = PyStr (exhausted_message e))
                 \<and> (\<forall>j < length (tried_of ?new). failed_attempt w (i + j) (tried_of ?new ! j))
                 \<and> (length (tried_of ?new) = Suc n
                     \<or> (tried_of ?new \<noteq> [] \<and> last (tried_of ?new) = (fp, fm))))"
      proof (cases "tried_of new'")
        case Nil
        with n6 failed show ?thesis unfolding t by auto
      next
        case (Cons a list)
        from n6 show ?thesis
        proof
          assume A: "tried_of new' \<noteq> [] \<and> last (tried_of new') = (fp, fm)
                 \<and> fo_task w (Suc i + length (tried_of new') - 1) fp fm = Returns v \<and> succeeded v
                 \<and> (\<forall>j < length (tried_of new') - 1. failed_attempt w (Suc i + j) (tried_of new' ! j))"
          then have "\<forall>j < Suc (length (tried_of new') - 1). failed_attempt w (i + j) ((cur # tried_of new') ! j)"
            using shift by blast
          with A Cons show ?thesis unfolding t by auto
        next
          assume B: "(\<exists>e. v = PyStr (exhausted_message e))
                 \<and> (\<forall>j < length (tried_of new'). failed_attempt w (Suc i + j) (tried_of new' ! j))
                 \<and> (length (tried_of new') = n
                     \<or> (tried_of new' \<noteq> [] \<and> last (tried_of new') = (fp, fm)))"
          then have "\<forall>j < Suc (length (tried_of new')). failed_attempt w (i + j) ((cur # tried_of new') ! j)"
            using shift by blast
          with B Cons show ?thesis unfolding t by auto
        qed
      qed
      from a1 a2 a3 a4 a5 a6 show ?thesis by blast
    qed
  qed
qed

subsection \<open>Claim C5: how many attempts, which keys, which pauses, which triple\<close>

definition rate_limited_world :: fo_world where
  "rate_limited_world =
     \<lparr>fo_task = (\<lambda>i p m. Returns (PyStr ''Error: rate limit exceeded'')),
      fo_clock = (\<lambda>k. 1000 + real k), tier_enabled = False,
      tier_best = (\<lambda>k c p. None)\<rparr>"

definition second_answers_world :: fo_world where
  "second_answers_world =
     \<lparr>fo_task = (\<lambda>i p m. if i = 0 then Returns (PyStr ''Error: rate limit exceeded'')
                           else Returns (PyStr ''ok'')),
      fo_clock = (\<lambda>k. 1000 + real k), tier_enabled = False,
      tier_best = (\<lambda>k c p. None)\<rparr>"

text \<open>
  Claim C5, as amended. With failover enabled, \<open>execute_with_failover\<close> calls the task at
  most \<open>max_retries + 1\<close> times (the primary pair and up to \<open>max_retries\<close> fallbacks; the
  defaults are \<open>max_retries = 3\<close> and \<open>retry_delay = 1\<close> second), the pairs it calls the task
  for have pairwise different keys, there is exactly one sleep of \<open>retry_delay\<close> between two
  consecutive calls, and it returns either from the first successful call, with that
  call's result and pair, every earlier call having failed, or, every call having failed,
  with the message of exhaustion.
\<close>

theorem failover_attempts:
  assumes "fc_enabled (fm_config mgr)"
    and "execute_with_failover w mgr p m cat st = (res, st')"
  shows "\<exists>v fp fm new. res = Inr (v, fp, fm) \<and> fo_events st' = fo_events st @ new
           \<and> int (length (tried_of new)) \<le> max 0 (fc_max_retries (fm_config mgr) + 1)
           \<and> distinct (map key_of (tried_of new))
           \<and> paced (fc_retry_delay (fm_config mgr)) (pace new)
           \<and> ((tried_of new \<noteq> [] \<and> last (tried_of new) = (fp, fm)
                 \<and> fo_task w (length (tried_of new) - 1) fp fm = Returns v \<and> succeeded v
                 \<and> (\<forall>j < length (tried_of new) - 1. failed_attempt w j (tried_of new ! j)))
              \<or> ((\<exists>e. v = PyStr (exhausted_message e))
                 \<and> (\<forall>j < length (tried_of new). failed_attempt w j (tried_of new ! j))))
           \<and> fc_max_retries default_config = 3 \<and> fc_retry_delay default_config = 1"
proof -
  obtain v fp fm where
    run: "failover_loop w mgr cat (nat (fc_max_retries (fm_config mgr) + 1)) 0 []
            (p, m) None st = ((v, fp, fm), st')"
    and res: "res = Inr (v, fp, fm)"
    using assms by (auto simp: execute_with_failover_def Let_def split: prod.splits)
  from failover_loop_run [OF run] obtain new where
    "fo_events st' = fo_events st @ new"
    "length (tried_of new) \<le> nat (fc_max_retries (fm_config mgr) + 1)"
    "distinct (map key_of (tried_of new))"
    "paced (fc_retry_delay (fm_config mgr)) (pace new)"
    "(tried_of new \<noteq> [] \<and> last (tried_of new) = (fp, fm)
        \<and> fo_task w (0 + length (tried_of new) - 1) fp fm = Returns v \<and> succeeded v
        \<and> (\<forall>j < length (tried_of new) - 1. failed_attempt w (0 + j) (tried_of new ! j)))
     \<or> ((\<exists>e. v = PyStr (exhausted_message e))
        \<and> (\<forall>j < length (tried_of new). failed_attempt w (0 + j) (tried_of new ! j))
        \<and> (length (tried_of new) = nat (fc_max_retries (fm_config mgr) + 1)
            \<or> (tried_of new \<noteq> [] \<and> last (tried_of new) = (fp, fm))))"
    by auto
  with res show ?thesis
    by (intro exI [of _ v] exI [of _ fp] exI [of _ fm] exI [of _ new])
       (auto simp: default_config_def)
qed

theorem failover_attempts_witness:
  "fc_enabled (fm_config default_manager)
   \<and> fst (execute_with_failover second_answers_world default_manager
             ''claude_code'' ''sonnet'' None fo_init)
       = Inr (PyStr ''ok'', ''groq'', ''llama-3.3-70b-versatile'')
   \<and> (\<exists>new. fo_events (snd (execute_with_failover second_answers_world default_manager
                              ''claude_code'' ''sonnet'' None fo_init)) = new
          \<and> length (tried_of new) \<le> 4
          \<and> distinct (map key_of (tried_of new))
          \<and> paced 1 (pace new))"
proof -
  let ?run = "execute_with_failover second_answers_world default_manager
                ''claude_code'' ''sonnet'' None fo_init"
  have en: "fc_enabled (fm_config default_manager)"
    by (simp add: default_manager_def default_config_def)
  have r: "fst ?run = Inr (PyStr ''ok'', ''groq'', ''llama-3.3-70b-versatile'')"
    by code_simp
  have "?run = (fst ?run, snd ?run)" by simp
  from failover_attempts [OF en this] obtain new where
    "fo_events (snd ?run) = fo_events fo_init @ new"
    "int (length (tried_of new)) \<le> max 0 (fc_max_retries (fm_config default_manager) + 1)"
    "distinct (map key_of (tried_of new))"
    "paced (fc_retry_delay (fm_config default_manager)) (pace new)"
    by blast
  then have "length (tried_of (fo_events (snd ?run))) \<le> 4
      \<and> distinct (map key_of (tried_of (fo_events (snd ?run))))
      \<and> paced 1 (pace (fo_events (snd ?run)))"
    by (simp add: fo_init_def default_manager_def default_config_def)
  with en r show ?thesis by blast
qed

text \<open>
  The claim as stated bounds the attempts by \<open>max_retries\<close>. With the manager that
  \<open>get_failover_manager\<close> builds (\<open>max_retries = 3\<close>) and a task that always answers
  \<open>Error: rate limit exceeded\<close>, a call for \<open>claude_code/opus\<close> calls the task four times.
\<close>

theorem failover_four_attempts_counterexample:
  "fc_max_retries (fm_config default_manager) = 3
   \<and> tried_of (fo_events (snd (execute_with_failover rate_limited_world default_manager
                                  ''claude_code'' ''opus'' None fo_init)))
       = [(''claude_code'', ''opus''), (''claude_code'', ''sonnet''),
          (''groq'', ''llama-3.3-70b-versatile''), (''google_ai'', ''gemini-1.5-pro'')]"
  by code_simp


section \<open>The workflow graph (core/workflow.py)\<close>

datatype node_status =
  IDLE | QUEUED | RUNNING | COMPLETE | FAILED | SKIPPED | WAITING_FOR_APPROVAL | PAUSED

text \<open>
  A node, with the fields the engine reads or writes. \<open>wn_type\<close> is the node kind as its
  lowercase string (the model is configured with \<open>use_enum_values\<close>); \<open>wn_sub_workflows\<close>
  counts the attached sub-workflows, whose contents the engine hands to child engines.
\<close>

record workflow_node =
  wn_id :: string
  wn_name :: string
  wn_type :: string
  wn_provider :: string
  wn_model :: string
  wn_requires_approval :: bool
  wn_save_path :: "string option"
  wn_status :: node_status
  wn_output :: "string option"
  wn_error :: "string option"
  wn_max_iterations :: int
  wn_iteration_count :: int
  wn_agreement_rules :: "agreement_rule list"
  wn_sub_workflows :: nat
  wn_tier :: string

record workflow_edge =
  we_source :: string
  we_target :: string
  we_condition :: "string option"
  we_feedback :: bool

text \<open>
  \<open>Workflow.nodes\<close> is a dictionary from node id to node; Python keeps the order of
  insertion, which decides the order of the initial queue, so it is an association list.
\<close>

record workflow =
  wf_nodes :: "(string \<times> workflow_node) list"
  wf_edges :: "workflow_edge list"

definition get_entry_nodes :: "workflow \<Rightarrow> string list" where
  "get_entry_nodes flow =
     (let targets = set (map we_target (wf_edges flow))
      in filter (\<lambda>nid. nid \<notin> targets) (map fst (wf_nodes flow)))"

definition get_successors :: "workflow_edge list \<Rightarrow> string \<Rightarrow> string list" where
  "get_successors edges node_id = map we_target (filter (\<lambda>e. we_source e = node_id) edges)"

definition get_predecessors :: "workflow_edge list \<Rightarrow> string \<Rightarrow> string list" where
  "get_predecessors edges node_id = map we_source (filter (\<lambda>e. we_target e = node_id) edges)"

section \<open>The engine (WorkflowEngine.execute)\<close>

text \<open>The dictionary that \<open>_execute_node\<close> returns: \<open>success\<close>, \<open>output\<close>, \<open>error\<close>.\<close>

record exec_result =
  er_success :: bool
  er_output :: "string option"
  er_error :: "string option"

datatype run_outcome = Done exec_result | Raised string

text \<open>
  The world outside the engine. \<open>ew_executor k node input context blackboard\<close> is what
  the \<open>k\<close>-th dispatch of the run gets from the node's executor: the executor of the node
  registry, the agent node's generation and validation loop, or the child engines of a
  node with sub-workflows; it returns a result dictionary or raises.
  \<open>ew_intervention\<close> is the \<open>check_intervention\<close> callback (none may be given), asked for
  the \<open>k\<close>-th time; \<open>ew_save\<close> is the file write of an output node, \<open>Some\<close> with the
  exception's text when it fails; \<open>ew_set_order\<close> is the order in which Python iterates
  over the set \<open>completed\<close>. Logging, status callbacks and the traffic controller's slots
  are not modelled: they are assumed to return without raising.
\<close>

record engine_world =
  ew_executor :: "nat \<Rightarrow> workflow_node \<Rightarrow> string \<Rightarrow> string \<Rightarrow> (string \<times> string) list \<Rightarrow> run_outcome"
  ew_intervention :: "(nat \<Rightarrow> string \<Rightarrow> string option) option"
  ew_save :: "nat \<Rightarrow> string \<Rightarrow> string \<Rightarrow> string option"
  ew_set_order :: "string set \<Rightarrow> string list"
  ew_lib :: rule_lib

record snapshot =
  sn_step_index :: nat
  sn_node_id :: string
  sn_blackboard :: "(string \<times> string) list"
  sn_outputs :: "(string \<times> string option) list"

text \<open>
  The engine's variables during \<open>execute\<close>. Two fields only observe:
  \<open>es_dispatched\<close> lists the dispatches to an executor, each with the status of every node
  at that moment, and \<open>es_slept\<close> the seconds of each \<open>asyncio.sleep\<close>.
\<close>

record engine_state =
  es_nodes :: "(string \<times> workflow_node) list"
  es_completed :: "string set"
  es_outputs :: "(string \<times> string option) list"
  es_queue :: "string list"
  es_logged_waiting :: "string set"
  es_progress_made :: bool
  es_blackboard :: "(string \<times> string) list"
  es_history :: "snapshot list"
  es_calls :: nat
  es_polls :: nat
  es_dispatched :: "(string \<times> (string \<times> node_status) list) list"
  es_slept :: "real list"

definition set_node :: "string \<Rightarrow> (workflow_node \<Rightarrow> workflow_node) \<Rightarrow> engine_state \<Rightarrow> engine_state" where
  "set_node k f s = s\<lparr>es_nodes := AList.map_entry k f (es_nodes s)\<rparr>"

definition statuses :: "engine_state \<Rightarrow> (string \<times> node_status) list" where
  "statuses s = map (\<lambda>(k, n). (k, wn_status n)) (es_nodes s)"

definition opt_str :: "string option \<Rightarrow> string" where
  "opt_str v = (case v of None \<Rightarrow> ''None'' | Some t \<Rightarrow> t)"

text \<open>The sources of the non-feedback edges into a node (\<open>required_predecessors\<close>).\<close>

definition required_predecessors :: "workflow_edge list \<Rightarrow> string \<Rightarrow> string list" where
  "required_predecessors edges node_id =
     map we_source (filter (\<lambda>e. we_target e = node_id \<and> \<not> we_feedback e) edges)"

text \<open>
  The context of a node about to start: the last five outputs of completed director,
  character and auditor nodes, then one part per incoming edge; the initial input when
  the node has no incoming edge. \<open>workflow.nodes[p]\<close> raises \<open>KeyError\<close> for a source
  that is not a node.
\<close>

definition story_history :: "engine_state \<Rightarrow> string list" where
  "story_history s =
     concat (map (\<lambda>(nid, out).
         if nid = ''__input__'' then []
         else (case map_of (es_nodes s) nid of
                 None \<Rightarrow> []
               | Some n \<Rightarrow>
                   if wn_type n \<in> set [''director'', ''character'', ''auditor'']
                      \<and> nid \<in> es_completed s
                   then [''['' @ wn_name n @ '']: '' @ opt_str out] else []))
       (es_outputs s))"

fun predecessor_parts :: "engine_state \<Rightarrow> string list \<Rightarrow> exn + string list" where
  "predecessor_parts s [] = Inr []"
| "predecessor_parts s (p # ps) =
     (case map_of (es_nodes s) p of
        None \<Rightarrow> Inl (KeyError p)
      | Some n \<Rightarrow>
          (case predecessor_parts s ps of
             Inl e \<Rightarrow> Inl e
           | Inr parts \<Rightarrow>
               Inr ((''['' @ wn_name n @ '']: ''
                      @ opt_str (case map_of (es_outputs s) p of None \<Rightarrow> Some [] | Some v \<Rightarrow> v))
                    # parts)))"

definition build_context :: "workflow_edge list \<Rightarrow> engine_state \<Rightarrow> string \<Rightarrow> exn + string" where
  "build_context edges s node_id =
     (let predecessors = get_predecessors edges node_id;
          hist = story_history s;
          head = (if hist = [] then []
                  else [''=== SHARED STORY HISTORY ==='' @ [CHR 0x0A]
                          @ join_sep [CHR 0x0A, CHR 0x0A] (drop (length hist - 5) hist)
                          @ [CHR 0x0A] @ ''==============================''])
      in case predecessor_parts s predecessors of
           Inl e \<Rightarrow> Inl e
         | Inr parts \<Rightarrow>
             Inr (if predecessors \<noteq> [] then join_sep [CHR 0x0A, CHR 0x0A] (head @ parts)
                  else (case map_of (es_outputs s) ''__input__'' of
                          None \<Rightarrow> []
                        | Some v \<Rightarrow> opt_str v)))"

text \<open>The model a paid-tier node is scaled to when its context is long or names a hard task.\<close>

definition model_override :: "workflow_node \<Rightarrow> string \<Rightarrow> string" where
  "model_override node context =
     (if wn_tier node = ''paid''
         \<and> (length context > 2000
             \<or> list_ex (\<lambda>kw. py_in kw (lower context))
                  [''refactor'', ''architect'', ''database'', ''security audit''])
      then (if wn_provider node = ''ollama'' \<and> wn_model node \<in> set [''llama3'', ''mistral'']
            then ''kimi-k2.5''
            else if wn_provider node = ''google_ai'' then ''gemini-1.5-pro''
            else wn_model node)
      else wn_model node)"

text \<open>
  \<open>_process_blackboard_tags\<close> (the second definition of that name in the class, which is
  the one in force): the short form of \<open><set_state>\<close>, then the long form.
\<close>

definition set_state_short_re :: re where
  "set_state_short_re =
     seq (tag_open ''set_state'' ''key'' Dot @
          [Plus Space, Lit ''value='', One Quote, Grp 2 (Lazy Dot), One Quote, Star Space,
           Lit ''/>''])"

definition set_state_long_re :: re where
  "set_state_long_re =
     seq (tag_open ''set_state'' ''key'' DotAll @
          [Lit ''>'', Grp 2 (Lazy DotAll), Lit ''</set_state>''])"

definition process_blackboard_tags :: "string \<Rightarrow> (string \<times> string) list \<Rightarrow> (string \<times> string) list" where
  "process_blackboard_tags text bb =
     (if text = [] then bb
      else
        fold (\<lambda>m b. AList.update (group_str m 1) (py_strip (group_str m 2)) b)
          (finditer set_state_long_re text)
          (fold (\<lambda>m b. AList.update (group_str m 1) (group_str m 2) b)
             (finditer set_state_short_re text) bb))"

text \<open>
  The node kinds whose registered executor is not the agent node. Every other kind
  (but \<open>input\<close> and \<open>output\<close>) is run by \<open>AgentNode.execute\<close>, through the registry or
  as the final fallback.
\<close>

definition non_agent_kinds :: "string list" where
  "non_agent_kinds =
     [''browser'', ''shell'', ''system'', ''memory'', ''http'', ''script'', ''github'',
      ''huggingface'', ''discovery'', ''rag'', ''a2ui'', ''mcp'', ''notion'', ''google'',
      ''comfy'', ''telegram_trigger'', ''discord_trigger'', ''openapi'']"

text \<open>
  \<open>__inner_execute_node\<close>. It returns the node as well, because \<open>AgentNode.execute\<close>
  starts with \<open>node.iteration_count += 1\<close>; no other executor touches the counter.
\<close>

definition inner_execute_node ::
  "engine_world \<Rightarrow> nat \<Rightarrow> workflow_node \<Rightarrow> string \<Rightarrow> string \<Rightarrow> (string \<times> string) list
    \<Rightarrow> workflow_node \<times> run_outcome" where
  "inner_execute_node w k node input_text context bb =
     (if wn_type node = ''output'' then
        (let out0 = (if context \<noteq> [] then context else input_text);
             out = (if out0 = [] then ''No Content'' else out0)
         in case wn_save_path node of
              None \<Rightarrow> (node, Done \<lparr>er_success = True, er_output = Some out, er_error = None\<rparr>)
            | Some save_target \<Rightarrow>
                if save_target = [] then
                  (node, Done \<lparr>er_success = True, er_output = Some out, er_error = None\<rparr>)
                else
                  (case ew_save w k save_target out of
                     None \<Rightarrow>
                       (node, Done \<lparr>er_success = True, er_output = Some out, er_error = None\<rparr>)
                   | Some e \<Rightarrow>
                       (node, Done \<lparr>er_success = False, er_output = None,
                                    er_error = Some (''Failed to save: '' @ e)\<rparr>)))
      else if wn_type node = ''input'' then
        (node, Done \<lparr>er_success = True, er_output = Some input_text, er_error = None\<rparr>)
      else if wn_sub_workflows node > 0 then
        (node, ew_executor w k node input_text context bb)
      else if wn_type node \<in> set non_agent_kinds then
        (node, ew_executor w k node input_text context bb)
      else
        (let node' = node\<lparr>wn_iteration_count := wn_iteration_count node + 1\<rparr>
         in (node', ew_executor w k node' input_text context bb)))"

text \<open>
  What \<open>_execute_node\<close> appends to the context for pending feedback. Where a line
  break is meant the source's string literal has an escaped backslash, so the text holds a
  backslash and the letter \<open>n\<close>.
\<close>

definition feedback_text :: "string \<Rightarrow> string" where
  "feedback_text feedback =
     [CHR 0x5C, CHR ''n'', CHR 0x5C, CHR ''n''] @ ''[USER INTERVENTION/FEEDBACK]: '' @ feedback
     @ [CHR 0x5C, CHR ''n''] @ ''(You must prioritize this instruction over previous ones.)''"

text \<open>
  \<open>_execute_node\<close>: the node is marked running, pending feedback of the blackboard is
  appended to the context, and an exception of the executor becomes a failure result.
\<close>

definition execute_node ::
  "engine_world \<Rightarrow> nat \<Rightarrow> workflow_node \<Rightarrow> string \<Rightarrow> string \<Rightarrow> (string \<times> string) list
    \<Rightarrow> workflow_node \<times> exec_result \<times> (string \<times> string) list" where
  "execute_node w k node input_text context bb =
     (let running = node\<lparr>wn_status := RUNNING\<rparr>;
          context' = (case map_of bb (wn_id node @ ''_feedback'') of
                        None \<Rightarrow> context
                      | Some feedback \<Rightarrow>
                          context @ feedback_text feedback);
          (node', outcome) = inner_execute_node w k running input_text context' bb
      in case outcome of
           Raised e \<Rightarrow> (node', \<lparr>er_success = False, er_output = None, er_error = Some e\<rparr>, bb)
         | Done result \<Rightarrow>
             (node', result,
              if er_success result
              then (case er_output result of
                      None \<Rightarrow> bb
                    | Some out \<Rightarrow> process_blackboard_tags out bb)
              else bb))"


text \<open>The tags that reshape the run: \<open><dispatch_task>\<close> and \<open><sleep>\<close>.\<close>

definition dispatch_re :: re where
  "dispatch_re =
     seq (tag_open ''dispatch_task'' ''node'' DotAll @
          [Opt (seq [Plus Space, Lit ''input='', One Quote, Grp 2 (Lazy DotAll), One Quote]),
           Lit ''>'', Grp 3 (Lazy DotAll), Lit ''</dispatch_task>''])"

datatype instruction = Dispatch string string | Sleep string

definition dispatch_input :: "rmatch \<Rightarrow> string" where
  "dispatch_input m =
     (let input_attr = group_str m 2; content = py_strip (group_str m 3)
      in if content \<noteq> [] then
           (if input_attr = [] then content else input_attr @ [CHR 0x0A] @ content)
         else input_attr)"

definition process_dispatch_tags :: "string \<Rightarrow> instruction list" where
  "process_dispatch_tags text =
     (if text = [] then []
      else map (\<lambda>m. Dispatch (group_str m 1) (dispatch_input m)) (finditer dispatch_re text)
           @ map (\<lambda>m. Sleep (group_str m 1)) (finditer (self_closing_re ''sleep'' ''duration'') text))"

text \<open>The seconds of a \<open><sleep>\<close> tag; \<open>int()\<close> raises \<open>ValueError\<close> on what is no number.\<close>

definition sleep_seconds :: "string \<Rightarrow> exn + int" where
  "sleep_seconds duration =
     (if CHR ''s'' \<in> set duration then int_of_string (filter (\<lambda>c. c \<noteq> CHR ''s'') duration)
      else if CHR ''m'' \<in> set duration then
        map_sum id (\<lambda>n. n * 60) (int_of_string (filter (\<lambda>c. c \<noteq> CHR ''m'') duration))
      else if CHR ''h'' \<in> set duration then
        map_sum id (\<lambda>n. n * 3600) (int_of_string (filter (\<lambda>c. c \<noteq> CHR ''h'') duration))
      else int_of_string duration)"

text \<open>
  A dispatch: the first node whose name or id is the target is set back to idle, taken out
  of \<open>completed\<close>, given the input as its output and queued unless it is queued already.
\<close>

definition dispatch_to :: "string \<Rightarrow> string \<Rightarrow> engine_state \<Rightarrow> engine_state" where
  "dispatch_to target_name input s =
     (case find (\<lambda>(k, n). wn_name n = target_name \<or> wn_id n = target_name) (es_nodes s) of
        None \<Rightarrow> s
      | Some (k, target) \<Rightarrow>
          let s1 = set_node k (\<lambda>n. n\<lparr>wn_status := IDLE\<rparr>) s;
              s2 = s1\<lparr>es_completed := es_completed s1 - {wn_id target},
                      es_outputs :=
                        AList.update (''__dispatch_'' @ wn_id target @ ''__'') (Some input)
                          (AList.update (wn_id target) (Some input) (es_outputs s1))\<rparr>
          in if wn_id target \<in> set (es_queue s2) then s2
             else s2\<lparr>es_queue := es_queue s2 @ [wn_id target], es_progress_made := True\<rparr>)"

fun run_instructions :: "instruction list \<Rightarrow> engine_state \<Rightarrow> exn + engine_state" where
  "run_instructions [] s = Inr s"
| "run_instructions (Sleep duration # rest) s =
     (case sleep_seconds duration of
        Inl e \<Rightarrow> Inl e
      | Inr seconds \<Rightarrow> run_instructions rest (s\<lparr>es_slept := es_slept s @ [real_of_int seconds]\<rparr>))"
| "run_instructions (Dispatch target_name input # rest) s =
     run_instructions rest (dispatch_to target_name input s)"

text \<open>Conditional routing: which outgoing edges of a completed node queue their target.\<close>

definition rejection_markers :: "string list" where
  "rejection_markers =
     [''incomplete'', ''code_incomplete'', ''gdd_incomplete'', ''needs_rework'', ''rejected'',
      ''failed validation'', ''placeholder detected'', ''not valid'']"

definition approval_markers :: "string list" where
  "approval_markers =
     [''validated'', ''valid'', ''approved'', ''complete'', ''ready'', ''gold_standard'',
      ''acceptable'', ''passed'']"

definition edge_fires :: "workflow_node \<Rightarrow> string \<Rightarrow> workflow_edge \<Rightarrow> bool" where
  "edge_fires node output_lower e =
     (if wn_type node = ''auditor'' \<and> we_feedback e then
        list_ex (\<lambda>pattern. py_in pattern output_lower) rejection_markers
      else if wn_type node = ''auditor'' \<and> \<not> we_feedback e then
        list_ex (\<lambda>pattern. py_in pattern output_lower) approval_markers
      else True)"

fun route_edges ::
  "workflow_node \<Rightarrow> string \<Rightarrow> string \<Rightarrow> string set \<Rightarrow> workflow_edge list \<Rightarrow> string list
    \<Rightarrow> string list" where
  "route_edges node output_lower node_id completed [] queue = queue"
| "route_edges node output_lower node_id completed (e # es) queue =
     (if we_source e \<noteq> node_id then route_edges node output_lower node_id completed es queue
      else if we_target e \<in> completed \<or> we_target e \<in> set queue then
        route_edges node output_lower node_id completed es queue
      else if edge_fires node output_lower e then
        route_edges node output_lower node_id completed es (queue @ [we_target e])
      else route_edges node output_lower node_id completed es queue)"

definition route_successors :: "workflow_edge list \<Rightarrow> string \<Rightarrow> engine_state \<Rightarrow> engine_state" where
  "route_successors edges node_id s =
     (case map_of (es_nodes s) node_id of
        None \<Rightarrow> s
      | Some node \<Rightarrow>
          if wn_status node = COMPLETE then
            s\<lparr>es_queue :=
                route_edges node
                  (lower (case wn_output node of None \<Rightarrow> [] | Some out \<Rightarrow> out))
                  node_id (es_completed s) edges (es_queue s)\<rparr>
          else s)"

definition take_snapshot :: "string \<Rightarrow> engine_state \<Rightarrow> engine_state" where
  "take_snapshot node_id s =
     s\<lparr>es_history := es_history s @
          [\<lparr>sn_step_index = length (es_history s), sn_node_id = node_id,
            sn_blackboard = es_blackboard s, sn_outputs = es_outputs s\<rparr>]\<rparr>"

text \<open>
  What follows the \<open>try\<close> block of a node that ran: the node joins \<open>completed\<close> whatever
  its status, the dispatch tags of a successful result's output are obeyed (outside any
  \<open>try\<close>), the successors are routed, a snapshot is taken.
\<close>

definition after_node ::
  "workflow_edge list \<Rightarrow> string \<Rightarrow> exec_result \<Rightarrow> engine_state \<Rightarrow> exn + engine_state" where
  "after_node edges node_id result s =
     (let s1 = s\<lparr>es_completed := insert node_id (es_completed s)\<rparr>
      in case (if er_success result
               then (case er_output result of
                       None \<Rightarrow> Inr s1
                     | Some out \<Rightarrow>
                         if out = [] then Inr s1
                         else run_instructions (process_dispatch_tags out) s1)
               else Inr s1) of
           Inl e \<Rightarrow> Inl e
         | Inr s2 \<Rightarrow> Inr (take_snapshot node_id (route_successors edges node_id s2)))"

fun exn_str :: "exn \<Rightarrow> string" where
  "exn_str (ValueError m) = m"
| "exn_str (TypeError m) = m"
| "exn_str (KeyError m) = m"
| "exn_str (AttributeError m) = m"
| "exn_str (ModuleNotFoundError m) = m"
| "exn_str (ReError m) = m"
| "exn_str (RaisedException m) = m"

text \<open>
  A ready node starts: its context is built, the executor is called inside the \<open>try\<close>, and the
  result decides the node's status. A successful result without an output makes
  \<open>_calculate_usage\<close> raise a \<open>TypeError\<close> inside the \<open>try\<close>; agreement rules that cannot
  be evaluated raise there too, after the node has been marked complete.
\<close>

definition start_node ::
  "engine_world \<Rightarrow> workflow_edge list \<Rightarrow> string \<Rightarrow> string \<Rightarrow> workflow_node \<Rightarrow> engine_state
    \<Rightarrow> exn + engine_state" where
  "start_node w edges initial_input node_id node s =
     (let s0 = s\<lparr>es_logged_waiting := es_logged_waiting s - {node_id}, es_progress_made := True\<rparr>
      in case build_context edges s0 node_id of
           Inl e \<Rightarrow> Inl e
         | Inr context \<Rightarrow>
             (let original_model = wn_model node;
                  node1 = node\<lparr>wn_model := model_override node context\<rparr>;
                  s1 = s0\<lparr>es_dispatched := es_dispatched s0 @ [(node_id, statuses s0)],
                          es_calls := Suc (es_calls s0)\<rparr>;
                  (node2, result, bb) =
                     execute_node w (es_calls s0) node1 initial_input context (es_blackboard s0);
                  s2 = s1\<lparr>es_blackboard := bb\<rparr>;
                  failed = (\<lambda>n msg. after_node edges node_id result
                              (set_node node_id
                                 (\<lambda>_. n\<lparr>wn_status := FAILED, wn_error := msg\<rparr>) s2))
              in if er_success result then
                   (case er_output result of
                      None \<Rightarrow> failed node2 (Some ''object of type 'NoneType' has no len()'')
                    | Some out \<Rightarrow>
                        (let node3 = node2\<lparr>wn_model := original_model\<rparr>;
                             s3 = s2\<lparr>es_outputs := AList.update node_id (Some out) (es_outputs s2)\<rparr>
                         in if wn_requires_approval node3 then
                              Inr ((set_node node_id
                                      (\<lambda>_. node3\<lparr>wn_status := WAITING_FOR_APPROVAL,
                                                 wn_output := Some out\<rparr>) s3)
                                     \<lparr>es_queue := es_queue s3 @ [node_id]\<rparr>)
                            else
                              (let node4 = node3\<lparr>wn_status := COMPLETE, wn_output := Some out\<rparr>
                               in if wn_agreement_rules node4 \<noteq> [] then
                                    (case validate (ew_lib w) out (wn_agreement_rules node4) of
                                       Inl e \<Rightarrow>
                                         after_node edges node_id result
                                           (set_node node_id
                                              (\<lambda>_. node4\<lparr>wn_status := FAILED,
                                                         wn_error := Some (exn_str e)\<rparr>) s3)
                                     | Inr v \<Rightarrow>
                                         after_node edges node_id result
                                           (set_node node_id (\<lambda>_. node4) s3))
                                  else after_node edges node_id result
                                         (set_node node_id (\<lambda>_. node4) s3))))
                 else failed (node2\<lparr>wn_model := original_model\<rparr>) (er_error result)))"

text \<open>A node waiting for approval is polled; without a decision it stays in the queue.\<close>

fun queue_unseen :: "string set \<Rightarrow> string list \<Rightarrow> string list \<Rightarrow> string list" where
  "queue_unseen completed [] queue = queue"
| "queue_unseen completed (succ # rest) queue =
     (if succ \<notin> completed \<and> succ \<notin> set queue then queue_unseen completed rest (queue @ [succ])
      else queue_unseen completed rest queue)"

definition poll_approval ::
  "engine_world \<Rightarrow> workflow_edge list \<Rightarrow> string \<Rightarrow> engine_state \<Rightarrow> engine_state" where
  "poll_approval w edges node_id s =
     (case ew_intervention w of
        None \<Rightarrow> s\<lparr>es_queue := es_queue s @ [node_id]\<rparr>
      | Some check \<Rightarrow>
          (let intervention = check (es_polls s) node_id;
               s1 = s\<lparr>es_polls := Suc (es_polls s),
                      es_slept := (if intervention = None \<or> intervention = Some []
                                   then es_slept s @ [1] else es_slept s)\<rparr>
           in if intervention = Some ''APPROVE'' then
                (let s2 = (set_node node_id (\<lambda>n. n\<lparr>wn_status := COMPLETE\<rparr>) s1)
                            \<lparr>es_completed := insert node_id (es_completed s1),
                             es_progress_made := True\<rparr>
                 in s2\<lparr>es_queue := queue_unseen (es_completed s2)
                                      (get_successors edges node_id) (es_queue s2)\<rparr>)
              else if intervention = Some ''REJECT'' then
                set_node node_id (\<lambda>n. n\<lparr>wn_status := FAILED\<rparr>) s1
              else s1\<lparr>es_queue := es_queue s1 @ [node_id]\<rparr>))"

text \<open>
  The body of the \<open>for\<close> loop: one node is taken from the front of the queue. A complete
  node is recycled or skipped; a node with an incomplete required predecessor goes back
  to the end of the queue; a waiting node is polled; any other node starts.
\<close>

definition process_node ::
  "engine_world \<Rightarrow> workflow_edge list \<Rightarrow> string \<Rightarrow> engine_state \<Rightarrow> exn + engine_state" where
  "process_node w edges initial_input s =
     (case es_queue s of
        [] \<Rightarrow> Inr s
      | node_id # rest \<Rightarrow>
          (let s0 = s\<lparr>es_queue := rest\<rparr>
           in case map_of (es_nodes s0) node_id of
                None \<Rightarrow> Inr s0
              | Some node \<Rightarrow>
                  if wn_status node = COMPLETE
                     \<and> \<not> wn_iteration_count node < wn_max_iterations node
                  then Inr s0
                  else
                    (let node1 = (if wn_status node = COMPLETE
                                  then node\<lparr>wn_status := IDLE, wn_output := None\<rparr> else node);
                         s1 = set_node node_id (\<lambda>_. node1) s0
                     in if \<not> list_all (\<lambda>p. p \<in> es_completed s1)
                                (required_predecessors edges node_id)
                        then Inr (s1\<lparr>es_logged_waiting := insert node_id (es_logged_waiting s1),
                                      es_queue := es_queue s1 @ [node_id]\<rparr>)
                        else if wn_status node1 = WAITING_FOR_APPROVAL
                        then Inr (poll_approval w edges node_id s1)
                        else start_node w edges initial_input node_id node1 s1)))"

text \<open>One pass of the \<open>for\<close> loop over \<open>range(queue_size)\<close>, and the \<open>while\<close> loop around it.\<close>

fun run_pass ::
  "engine_world \<Rightarrow> workflow_edge list \<Rightarrow> string \<Rightarrow> nat \<Rightarrow> engine_state \<Rightarrow> exn + engine_state" where
  "run_pass w edges initial_input 0 s = Inr s"
| "run_pass w edges initial_input (Suc k) s =
     (if es_queue s = [] then Inr s
      else (case process_node w edges initial_input s of
              Inl e \<Rightarrow> Inl e
            | Inr s' \<Rightarrow> run_pass w edges initial_input k s'))"

text \<open>
  The \<open>while queue\<close> loop can run for ever (a node may wait for an approval that never
  comes, or for a predecessor that never completes): \<open>fuel\<close> bounds the number of passes,
  and \<open>None\<close> says that the fuel ran out before the queue was empty.
\<close>

fun run_loop ::
  "engine_world \<Rightarrow> workflow_edge list \<Rightarrow> string \<Rightarrow> nat \<Rightarrow> engine_state
    \<Rightarrow> (exn + engine_state) option" where
  "run_loop w edges initial_input 0 s = (if es_queue s = [] then Some (Inr s) else None)"
| "run_loop w edges initial_input (Suc fuel) s =
     (if es_queue s = [] then Some (Inr s)
      else (case run_pass w edges initial_input (length (es_queue s))
                   (s\<lparr>es_progress_made := False\<rparr>) of
              Inl e \<Rightarrow> Some (Inl e)
            | Inr s' \<Rightarrow>
                run_loop w edges initial_input fuel
                  (if es_progress_made s' then s'\<lparr>es_logged_waiting := {}\<rparr>
                   else if es_queue s' \<noteq> [] then s'\<lparr>es_slept := es_slept s' @ [0.5]\<rparr>
                   else s')))"


text \<open>
  The start of \<open>execute\<close>. Without \<open>resume\<close> every node is reset; \<open>completed\<close> and
  \<open>outputs\<close> are read off the nodes; the queue of a resumed run holds the waiting nodes
  and the idle nodes all of whose predecessors are complete, and the queue is otherwise
  seeded with the entry nodes (fresh run) or with the idle successors of completed nodes
  (resumed run). The blackboard and the history belong to the engine object and are
  taken over from earlier runs.
\<close>

definition reset_node :: "workflow_node \<Rightarrow> workflow_node" where
  "reset_node n = n\<lparr>wn_status := IDLE, wn_output := None, wn_error := None\<rparr>"

definition initial_outputs ::
  "string \<Rightarrow> (string \<times> workflow_node) list \<Rightarrow> (string \<times> string option) list" where
  "initial_outputs initial_input ns =
     fold (\<lambda>(k, n) outs.
             (case wn_output n of
                None \<Rightarrow> outs
              | Some out \<Rightarrow> if out = [] then outs else AList.update (wn_id n) (Some out) outs))
       ns [(''__input__'', Some initial_input)]"

definition resume_queue ::
  "workflow_edge list \<Rightarrow> string set \<Rightarrow> (string \<times> workflow_node) list \<Rightarrow> string list" where
  "resume_queue edges completed ns =
     concat (map (\<lambda>(nid, node).
         if wn_status node = WAITING_FOR_APPROVAL then [nid]
         else if wn_status node = IDLE then
           (let preds = get_predecessors edges nid
            in if preds \<noteq> [] \<and> list_all (\<lambda>p. p \<in> completed) preds then [nid] else [])
         else []) ns)"

fun idle_successors ::
  "(string \<times> workflow_node) list \<Rightarrow> string list \<Rightarrow> string list \<Rightarrow> exn + string list" where
  "idle_successors ns [] queue = Inr queue"
| "idle_successors ns (succ # rest) queue =
     (case map_of ns succ of
        None \<Rightarrow> Inl (KeyError succ)
      | Some n \<Rightarrow>
          if wn_status n = IDLE \<and> succ \<notin> set queue then idle_successors ns rest (queue @ [succ])
          else idle_successors ns rest queue)"

definition initial_state ::
  "engine_world \<Rightarrow> workflow \<Rightarrow> string \<Rightarrow> bool \<Rightarrow> (string \<times> string) list \<Rightarrow> snapshot list
    \<Rightarrow> exn + engine_state" where
  "initial_state w flow initial_input resume bb hist =
     (let ns = (if \<not> resume then map (\<lambda>(k, n). (k, reset_node n)) (wf_nodes flow)
                else wf_nodes flow);
          completed = set (map (\<lambda>(k, n). wn_id n)
                             (filter (\<lambda>(k, n). wn_status n = COMPLETE) ns));
          queue0 = (if resume then resume_queue (wf_edges flow) completed ns else []);
          queue = (if queue0 \<noteq> [] then Inr queue0
                   else if \<not> resume then Inr (get_entry_nodes flow)
                   else idle_successors ns
                          (concat (map (get_successors (wf_edges flow))
                                     (ew_set_order w completed))) [])
      in case queue of
           Inl e \<Rightarrow> Inl e
         | Inr q \<Rightarrow>
             Inr \<lparr>es_nodes = ns, es_completed = completed,
                  es_outputs = initial_outputs initial_input ns, es_queue = q,
                  es_logged_waiting = {}, es_progress_made = False, es_blackboard = bb,
                  es_history = hist, es_calls = 0, es_polls = 0, es_dispatched = [],
                  es_slept = []\<rparr>)"

record engine_result =
  r_success :: bool
  r_outputs :: "(string \<times> string option) list"
  r_blackboard :: "(string \<times> string) list"
  r_nodes :: "(string \<times> node_status \<times> string option \<times> string option) list"

definition result_of :: "engine_state \<Rightarrow> engine_result" where
  "result_of s =
     \<lparr>r_success = list_all (\<lambda>(k, n). wn_status n = COMPLETE) (es_nodes s),
      r_outputs = es_outputs s, r_blackboard = es_blackboard s,
      r_nodes = map (\<lambda>(k, n). (k, wn_status n, wn_output n, wn_error n)) (es_nodes s)\<rparr>"

text \<open>
  \<open>execute\<close>: \<open>None\<close> when the fuel does not suffice, an exception that leaves \<open>execute\<close>,
  or the returned dictionary together with the engine's last state.
\<close>

definition execute ::
  "engine_world \<Rightarrow> workflow \<Rightarrow> string \<Rightarrow> bool \<Rightarrow> (string \<times> string) list \<Rightarrow> snapshot list \<Rightarrow> nat
    \<Rightarrow> (exn + engine_result \<times> engine_state) option" where
  "execute w flow initial_input resume bb hist fuel =
     (case initial_state w flow initial_input resume bb hist of
        Inl e \<Rightarrow> Some (Inl e)
      | Inr s0 \<Rightarrow>
          (case run_loop w (wf_edges flow) initial_input fuel s0 of
             None \<Rightarrow> None
           | Some (Inl e) \<Rightarrow> Some (Inl e)
           | Some (Inr s) \<Rightarrow> Some (Inr (result_of s, s))))"

text \<open>Nodes and edges with the defaults of the Pydantic models.\<close>

definition mk_node :: "string \<Rightarrow> string \<Rightarrow> workflow_node" where
  "mk_node nid kind =
     \<lparr>wn_id = nid, wn_name = nid, wn_type = kind, wn_provider = ''mock'', wn_model = ''default'',
      wn_requires_approval = False, wn_save_path = None, wn_status = IDLE, wn_output = None,
      wn_error = None, wn_max_iterations = 1, wn_iteration_count = 0, wn_agreement_rules = [],
      wn_sub_workflows = 0, wn_tier = ''free''\<rparr>"

definition mk_edge :: "string \<Rightarrow> string \<Rightarrow> bool \<Rightarrow> workflow_edge" where
  "mk_edge src tgt fb =
     \<lparr>we_source = src, we_target = tgt, we_condition = None, we_feedback = fb\<rparr>"

definition mk_workflow :: "workflow_node list \<Rightarrow> workflow_edge list \<Rightarrow> workflow" where
  "mk_workflow ns es = \<lparr>wf_nodes = map (\<lambda>n. (wn_id n, n)) ns, wf_edges = es\<rparr>"


section \<open>Facts about the engine\<close>

text \<open>The lowercased output contains one of the markers.\<close>

definition has_marker :: "string list \<Rightarrow> string \<Rightarrow> bool" where
  "has_marker markers out = (\<exists>m\<in>set markers. sublist m (lower out))"

lemma list_ex_marker: "list_ex (\<lambda>p. py_in p (lower out)) markers = has_marker markers out"
  by (simp add: has_marker_def list_ex_iff py_in_sublist)

lemma route_edges_append:
  "\<exists>extra. route_edges node ol nid C es q = q @ extra"
proof (induction es arbitrary: q)
  case Nil
  then show ?case by simp
next
  case (Cons e es)
  from Cons [of q] Cons [of "q @ [we_target e]"] show ?case by auto
qed

lemma route_edges_set:
  "set (route_edges node ol nid C es q) =
     set q \<union> {we_target e | e. e \<in> set es \<and> we_source e = nid \<and> we_target e \<notin> C
                                \<and> edge_fires node ol e}"
proof (induction es arbitrary: q)
  case Nil
  then show ?case by simp
next
  case (Cons e es)
  show ?case
    by (simp add: Cons) blast
qed

lemma route_edges_quiet:
  "(\<And>e. e \<in> set es \<Longrightarrow> we_source e = nid \<Longrightarrow> \<not> edge_fires node ol e) \<Longrightarrow>
     route_edges node ol nid C es q = q"
  by (induction es arbitrary: q) auto

text \<open>
  \<open>rev (remdups (rev xs))\<close> is \<open>xs\<close> with every element kept at its first occurrence
  only.
\<close>

lemma remdups_snoc: "remdups (xs @ [x]) = remdups (filter (\<lambda>y. y \<noteq> x) xs) @ [x]"
  by (induction xs) auto

lemma first_occurrence_Cons:
  "rev (remdups (rev (x # xs))) = x # rev (remdups (rev (filter (\<lambda>y. y \<noteq> x) xs)))"
  by (simp add: remdups_snoc rev_filter)

lemma route_edges_exact:
  "route_edges node ol nid C es q =
     q @ rev (remdups (rev (map we_target
            (filter (\<lambda>e. we_source e = nid \<and> we_target e \<notin> C \<and> we_target e \<notin> set q
                          \<and> edge_fires node ol e) es))))"
proof (induction es arbitrary: q)
  case Nil
  then show ?case by simp
next
  case (Cons e es)
  show ?case
  proof (cases "we_source e = nid \<and> we_target e \<notin> C \<and> we_target e \<notin> set q
                 \<and> edge_fires node ol e")
    case True
    have same: "filter (\<lambda>y. y \<noteq> we_target e)
             (map we_target
                (filter (\<lambda>e. we_source e = nid \<and> we_target e \<notin> C \<and> we_target e \<notin> set q
                              \<and> edge_fires node ol e) es))
          = map we_target
              (filter (\<lambda>x. we_source x = nid \<and> we_target x \<notin> C
                            \<and> we_target x \<notin> set (q @ [we_target e]) \<and> edge_fires node ol x) es)"
      by (induction es) auto
    from True have "route_edges node ol nid C (e # es) q
                      = route_edges node ol nid C es (q @ [we_target e])"
      by simp
    also note Cons [of "q @ [we_target e]"]
    finally show ?thesis
      using True by (simp add: first_occurrence_Cons same del: remdups.simps rev.simps)
  next
    case False
    then have "route_edges node ol nid C (e # es) q = route_edges node ol nid C es q"
      by auto
    with False Cons [of q] show ?thesis by auto
  qed
qed


definition node_keys :: "engine_state \<Rightarrow> string list" where
  "node_keys s = map fst (es_nodes s)"

lemma map_entry_keys: "map fst (AList.map_entry k f xs) = map fst xs"
  by (induction xs) auto

lemma set_node_keys [simp]: "node_keys (set_node k f s) = node_keys s"
  by (simp add: node_keys_def set_node_def map_entry_keys)

lemma node_keys_upd [simp]:
  "node_keys (s\<lparr>es_queue := q\<rparr>) = node_keys s"
  "node_keys (s\<lparr>es_completed := c\<rparr>) = node_keys s"
  "node_keys (s\<lparr>es_outputs := os\<rparr>) = node_keys s"
  "node_keys (s\<lparr>es_logged_waiting := lw\<rparr>) = node_keys s"
  "node_keys (s\<lparr>es_progress_made := pm\<rparr>) = node_keys s"
  "node_keys (s\<lparr>es_blackboard := b\<rparr>) = node_keys s"
  "node_keys (s\<lparr>es_history := h\<rparr>) = node_keys s"
  "node_keys (s\<lparr>es_calls := n\<rparr>) = node_keys s"
  "node_keys (s\<lparr>es_polls := n\<rparr>) = node_keys s"
  "node_keys (s\<lparr>es_dispatched := d\<rparr>) = node_keys s"
  "node_keys (s\<lparr>es_slept := sl\<rparr>) = node_keys s"
  by (simp_all add: node_keys_def)

lemma dispatch_to_keys [simp]: "node_keys (dispatch_to t i s) = node_keys s"
  by (auto simp: dispatch_to_def Let_def split: option.splits prod.splits)


lemma route_successors_keys [simp]: "node_keys (route_successors edges nid s) = node_keys s"
  by (auto simp: route_successors_def split: option.splits)

lemma take_snapshot_keys [simp]: "node_keys (take_snapshot nid s) = node_keys s"
  by (simp add: take_snapshot_def)



lemma poll_approval_keys [simp]: "node_keys (poll_approval w edges nid s) = node_keys s"
  by (auto simp: poll_approval_def Let_def split: option.splits)







lemma set_node_fields [simp]:
  "es_queue (set_node k f s) = es_queue s"
  "es_completed (set_node k f s) = es_completed s"
  "es_outputs (set_node k f s) = es_outputs s"
  "es_dispatched (set_node k f s) = es_dispatched s"
  "es_blackboard (set_node k f s) = es_blackboard s"
  "es_history (set_node k f s) = es_history s"
  "es_calls (set_node k f s) = es_calls s"
  "es_slept (set_node k f s) = es_slept s"
  by (simp_all add: set_node_def)

lemma execute_node_raised:
  "inner_execute_node w k (node\<lparr>wn_status := RUNNING\<rparr>) inp
     (case map_of bb (wn_id node @ ''_feedback'') of None \<Rightarrow> context
      | Some feedback \<Rightarrow> context @ feedback_text feedback) bb = (node', Raised e)
   \<Longrightarrow> execute_node w k node inp context bb
         = (node', \<lparr>er_success = False, er_output = None, er_error = Some e\<rparr>, bb)"
  by (simp add: execute_node_def Let_def)





section \<open>Sample workflows and worlds\<close>

definition ok_result :: "string \<Rightarrow> run_outcome" where
  "ok_result out = Done \<lparr>er_success = True, er_output = Some out, er_error = None\<rparr>"

definition failed_result :: "string \<Rightarrow> run_outcome" where
  "failed_result msg = Done \<lparr>er_success = False, er_output = None, er_error = Some msg\<rparr>"

text \<open>A world whose executors answer by the number of the dispatch and by the node.\<close>

definition world_of :: "(nat \<Rightarrow> workflow_node \<Rightarrow> run_outcome) \<Rightarrow> engine_world" where
  "world_of f = \<lparr>ew_executor = (\<lambda>k node input context bb. f k node), ew_intervention = None,
     ew_save = (\<lambda>k path content. None), ew_set_order = (\<lambda>S. []), ew_lib = sample_lib\<rparr>"

definition rework_world :: engine_world where
  "rework_world = world_of (\<lambda>k node. if wn_id node = ''Critic'' then ok_result ''needs_rework''
                                     else ok_result ''draft'')"

text \<open>
  The writer and its critic: the critic sends the work back along a feedback edge or on
  to the output node. \<open>review_flow\<close> puts an input node in front of the writer.
\<close>

definition loop_flow :: workflow where
  "loop_flow = mk_workflow
     [(mk_node ''Writer'' ''agent'')\<lparr>wn_max_iterations := 2\<rparr>, mk_node ''Critic'' ''auditor'',
      mk_node ''Out'' ''output'']
     [mk_edge ''Writer'' ''Critic'' False, mk_edge ''Critic'' ''Writer'' True,
      mk_edge ''Critic'' ''Out'' False]"

definition review_flow :: workflow where
  "review_flow = mk_workflow
     [mk_node ''In'' ''input'', (mk_node ''Writer'' ''agent'')\<lparr>wn_max_iterations := 2\<rparr>,
      mk_node ''Critic'' ''auditor'', mk_node ''Out'' ''output'']
     [mk_edge ''In'' ''Writer'' False, mk_edge ''Writer'' ''Critic'' False,
      mk_edge ''Critic'' ''Writer'' True, mk_edge ''Critic'' ''Out'' False]"

text \<open>What a finished run shows: the nodes dispatched to their executors, in order.\<close>

definition dispatches ::
  "(exn + engine_result \<times> engine_state) option \<Rightarrow> (exn + string list) option" where
  "dispatches run = map_option (map_sum id (\<lambda>(r, s). map fst (es_dispatched s))) run"

text \<open>Two entry nodes feed a third; one of the two fails.\<close>

definition join_flow :: workflow where
  "join_flow = mk_workflow
     [mk_node ''A'' ''agent'', mk_node ''B'' ''agent'', mk_node ''C'' ''agent'']
     [mk_edge ''A'' ''C'' False, mk_edge ''B'' ''C'' False]"


definition b_fails_world :: engine_world where
  "b_fails_world = world_of (\<lambda>k node. if wn_id node = ''B'' then failed_result ''boom''
                                      else ok_result ''done'')"

text \<open>A single agent whose answer carries a \<open><sleep>\<close> tag that names no number.\<close>

definition solo_flow :: workflow where
  "solo_flow = mk_workflow [mk_node ''A'' ''agent''] []"

definition sleep_tag :: string where
  "sleep_tag = ''<sleep duration='' @ [CHR 0x22] @ ''soon'' @ [CHR 0x22] @ ''/>''"

definition sleepy_world :: engine_world where
  "sleepy_world = world_of (\<lambda>k node. ok_result sleep_tag)"

text \<open>A worker and its boss, who sends the work back with a \<open><dispatch_task>\<close> tag.\<close>

definition redo_tag :: string where
  "redo_tag = ''<dispatch_task node='' @ [CHR 0x22] @ ''Worker'' @ [CHR 0x22]
                @ ''>redo</dispatch_task>''"

definition boss_flow :: workflow where
  "boss_flow = mk_workflow [mk_node ''Worker'' ''agent'', mk_node ''Boss'' ''agent'']
                 [mk_edge ''Worker'' ''Boss'' False]"

definition boss_world :: engine_world where
  "boss_world = world_of (\<lambda>k node. if wn_id node = ''Boss'' then ok_result redo_tag
                                   else ok_result ''work'')"

text \<open>The state in which the critic of \<open>loop_flow\<close> has just completed with an approval.\<close>

definition critic_node :: workflow_node where
  "critic_node = (mk_node ''Critic'' ''auditor'')
                   \<lparr>wn_status := COMPLETE, wn_output := Some ''Approved: ready to ship'',
                    wn_iteration_count := 1\<rparr>"

definition critic_done :: engine_state where
  "critic_done =
     \<lparr>es_nodes = [(''Writer'', (mk_node ''Writer'' ''agent'')
                                 \<lparr>wn_status := COMPLETE, wn_output := Some ''draft''\<rparr>),
                  (''Critic'', critic_node), (''Out'', mk_node ''Out'' ''output'')],
      es_completed = {''Writer'', ''Critic''},
      es_outputs = [(''__input__'', Some ''hi''), (''Writer'', Some ''draft''),
                    (''Critic'', Some ''Approved: ready to ship'')],
      es_queue = [], es_logged_waiting = {}, es_progress_made = True, es_blackboard = [],
      es_history = [], es_calls = 2, es_polls = 0, es_dispatched = [], es_slept = []\<rparr>"

subsection \<open>Claim C6: the routing of an auditor's outgoing edges\<close>

text \<open>
  A critic with two ways out: a feedback edge to a fixer, which has not run, and an edge
  to the output node. \<open>critic_rejected\<close> is the state in which the critic has just
  completed with a rejection.
\<close>

definition fix_flow :: workflow where
  "fix_flow = mk_workflow
     [mk_node ''Writer'' ''agent'', mk_node ''Critic'' ''auditor'', mk_node ''Fixer'' ''agent'',
      mk_node ''Out'' ''output'']
     [mk_edge ''Writer'' ''Critic'' False, mk_edge ''Critic'' ''Fixer'' True,
      mk_edge ''Critic'' ''Out'' False]"

definition rejecting_critic :: workflow_node where
  "rejecting_critic = (mk_node ''Critic'' ''auditor'')
                        \<lparr>wn_status := COMPLETE, wn_output := Some ''needs_rework'',
                         wn_iteration_count := 1\<rparr>"

definition critic_rejected :: engine_state where
  "critic_rejected =
     \<lparr>es_nodes = [(''Writer'', (mk_node ''Writer'' ''agent'')
                                 \<lparr>wn_status := COMPLETE, wn_output := Some ''draft'',
                                  wn_iteration_count := 1\<rparr>),
                  (''Critic'', rejecting_critic), (''Fixer'', mk_node ''Fixer'' ''agent''),
                  (''Out'', mk_node ''Out'' ''output'')],
      es_completed = {''Writer'', ''Critic''},
      es_outputs = [(''__input__'', Some ''hi''), (''Writer'', Some ''draft''),
                    (''Critic'', Some ''needs_rework'')],
      es_queue = [], es_logged_waiting = {}, es_progress_made = True, es_blackboard = [],
      es_history = [], es_calls = 2, es_polls = 0, es_dispatched = [], es_slept = []\<rparr>"

text \<open>
  Claim C6, as amended. When an auditor node has completed, routing changes nothing but
  the queue, and it appends to the queue, in the order of the edge list and each target
  once, the targets of those outgoing edges of the auditor whose target is neither in the
  completed set nor in the queue already and which are a feedback edge while the
  lowercased output contains a rejection marker, or a non-feedback edge while it contains
  an approval marker. An edge whose target is complete or already queued is passed over,
  so that a queue without repetitions stays so. When the output contains no marker of
  either set, no outgoing edge of the auditor is queued.
\<close>

theorem auditor_routing:
  assumes "map_of (es_nodes s) nid = Some node"
    and "wn_status node = COMPLETE"
    and "wn_type node = ''auditor''"
  shows "route_successors edges nid s =
           s\<lparr>es_queue := es_queue s @ rev (remdups (rev (map we_target
               (filter (\<lambda>e. we_source e = nid \<and> we_target e \<notin> es_completed s
                             \<and> we_target e \<notin> set (es_queue s)
                             \<and> (if we_feedback e
                                 then has_marker rejection_markers
                                        (case wn_output node of None \<Rightarrow> [] | Some out \<Rightarrow> out)
                                 else has_marker approval_markers
                                        (case wn_output node of None \<Rightarrow> [] | Some out \<Rightarrow> out)))
                  edges))))\<rparr>
       \<and> (\<forall>t. t \<in> set (es_queue (route_successors edges nid s)) \<longleftrightarrow>
              t \<in> set (es_queue s)
              \<or> (\<exists>e\<in>set edges. we_source e = nid \<and> we_target e = t \<and> t \<notin> es_completed s
                    \<and> (if we_feedback e
                        then has_marker rejection_markers
                               (case wn_output node of None \<Rightarrow> [] | Some out \<Rightarrow> out)
                        else has_marker approval_markers
                               (case wn_output node of None \<Rightarrow> [] | Some out \<Rightarrow> out))))
       \<and> (distinct (es_queue s) \<longrightarrow> distinct (es_queue (route_successors edges nid s)))
       \<and> (\<not> has_marker rejection_markers (case wn_output node of None \<Rightarrow> [] | Some out \<Rightarrow> out)
          \<and> \<not> has_marker approval_markers (case wn_output node of None \<Rightarrow> [] | Some out \<Rightarrow> out)
          \<longrightarrow> route_successors edges nid s = s)"
proof -
  let ?out = "case wn_output node of None \<Rightarrow> [] | Some out \<Rightarrow> out"
  let ?new = "rev (remdups (rev (map we_target
               (filter (\<lambda>e. we_source e = nid \<and> we_target e \<notin> es_completed s
                             \<and> we_target e \<notin> set (es_queue s)
                             \<and> (if we_feedback e then has_marker rejection_markers ?out
                                 else has_marker approval_markers ?out)) edges))))"
  have r: "route_successors edges nid s =
             s\<lparr>es_queue := route_edges node (lower ?out) nid (es_completed s) edges (es_queue s)\<rparr>"
    using assms by (simp add: route_successors_def)
  have fires: "\<And>e. edge_fires node (lower ?out) e
                 = (if we_feedback e then has_marker rejection_markers ?out
                    else has_marker approval_markers ?out)"
    using assms(3) by (simp add: edge_fires_def list_ex_marker)
  have a: "route_successors edges nid s = s\<lparr>es_queue := es_queue s @ ?new\<rparr>"
    unfolding r route_edges_exact fires ..
  have b: "\<forall>t. t \<in> set (es_queue (route_successors edges nid s)) \<longleftrightarrow>
              t \<in> set (es_queue s)
              \<or> (\<exists>e\<in>set edges. we_source e = nid \<and> we_target e = t \<and> t \<notin> es_completed s
                    \<and> (if we_feedback e then has_marker rejection_markers ?out
                        else has_marker approval_markers ?out))"
    unfolding r by (simp add: route_edges_set fires) blast
  have "distinct ?new" "set ?new \<inter> set (es_queue s) = {}"
    by auto
  then have c: "distinct (es_queue s) \<longrightarrow> distinct (es_queue (route_successors edges nid s))"
    unfolding a by auto
  have d: "\<not> has_marker rejection_markers ?out \<and> \<not> has_marker approval_markers ?out
          \<longrightarrow> route_successors edges nid s = s"
    unfolding a by auto
  from a b c d show ?thesis by blast
qed

theorem auditor_routing_witness:
  "es_queue (route_successors (wf_edges fix_flow) ''Critic'' critic_rejected) = [''Fixer'']
   \<and> es_queue (route_successors (wf_edges loop_flow) ''Critic''
                 (critic_done\<lparr>es_queue := [''Out'']\<rparr>)) = [''Out'']
   \<and> dispatches (execute rework_world fix_flow ''hi'' False [] [] 10)
       = Some (Inr [''Writer'', ''Critic'', ''Fixer''])"
proof -
  have n1: "map_of (es_nodes critic_rejected) ''Critic'' = Some rejecting_critic"
    by (simp add: critic_rejected_def)
  have st1: "wn_status rejecting_critic = COMPLETE"
    and ty1: "wn_type rejecting_critic = ''auditor''"
    by (simp_all add: rejecting_critic_def mk_node_def)
  from auditor_routing [OF n1 st1 ty1, of "wf_edges fix_flow"]
  have "es_queue (route_successors (wf_edges fix_flow) ''Critic'' critic_rejected)
          = es_queue critic_rejected @ rev (remdups (rev (map we_target
               (filter (\<lambda>e. we_source e = ''Critic'' \<and> we_target e \<notin> es_completed critic_rejected
                             \<and> we_target e \<notin> set (es_queue critic_rejected)
                             \<and> (if we_feedback e
                                 then has_marker rejection_markers
                                        (case wn_output rejecting_critic of
                                           None \<Rightarrow> [] | Some out \<Rightarrow> out)
                                 else has_marker approval_markers
                                        (case wn_output rejecting_critic of
                                           None \<Rightarrow> [] | Some out \<Rightarrow> out)))
                  (wf_edges fix_flow)))))"
    (is "_ = ?rhs1")
    by simp
  also have "?rhs1 = [''Fixer'']"
    by code_simp
  finally have first:
    "es_queue (route_successors (wf_edges fix_flow) ''Critic'' critic_rejected) = [''Fixer'']" .
  let ?s = "critic_done\<lparr>es_queue := [''Out'']\<rparr>"
  have n2: "map_of (es_nodes ?s) ''Critic'' = Some critic_node"
    by (simp add: critic_done_def)
  have st2: "wn_status critic_node = COMPLETE" and ty2: "wn_type critic_node = ''auditor''"
    by (simp_all add: critic_node_def mk_node_def)
  from auditor_routing [OF n2 st2 ty2, of "wf_edges loop_flow"]
  have "es_queue (route_successors (wf_edges loop_flow) ''Critic'' ?s)
          = es_queue ?s @ rev (remdups (rev (map we_target
               (filter (\<lambda>e. we_source e = ''Critic'' \<and> we_target e \<notin> es_completed ?s
                             \<and> we_target e \<notin> set (es_queue ?s)
                             \<and> (if we_feedback e
                                 then has_marker rejection_markers
                                        (case wn_output critic_node of
                                           None \<Rightarrow> [] | Some out \<Rightarrow> out)
                                 else has_marker approval_markers
                                        (case wn_output critic_node of
                                           None \<Rightarrow> [] | Some out \<Rightarrow> out)))
                  (wf_edges loop_flow)))))"
    (is "_ = ?rhs2")
    by simp
  also have "?rhs2 = [''Out'']"
    by code_simp
  finally have second:
    "es_queue (route_successors (wf_edges loop_flow) ''Critic'' ?s) = [''Out'']" .
  have third: "dispatches (execute rework_world fix_flow ''hi'' False [] [] 10)
       = Some (Inr [''Writer'', ''Critic'', ''Fixer''])"
    by code_simp
  from first second third show ?thesis by (intro conjI)
qed

text \<open>
  The claim as stated lets every feedback edge fire on a rejection. In \<open>review_flow\<close> the
  critic answers \<open>needs_rework\<close>, a rejection marker, but its feedback edge leads to the
  writer, which is in the completed set: the writer is not queued again, and the run ends
  after three dispatches.
\<close>

theorem feedback_not_queued_counterexample:
  "has_marker rejection_markers ''needs_rework''
   \<and> dispatches (execute rework_world review_flow ''hi'' False [] [] 10)
       = Some (Inr [''In'', ''Writer'', ''Critic''])"
  by code_simp

subsection \<open>Claim C7: a node with feedback edges only is not seeded\<close>

text \<open>
  What \<open>execute\<close> does at the start of a fresh run: every node is reset to idle, its
  output and error cleared, and the queue is \<open>get_entry_nodes()\<close>, the nodes that are the
  target of no edge at all, feedback or not, in the order of the node dictionary.
\<close>

lemma fresh_run_queue:
  "\<exists>s0. initial_state w flow initial_input False bb hist = Inr s0
     \<and> map fst (es_nodes s0) = map fst (wf_nodes flow)
     \<and> (\<forall>(k, n)\<in>set (es_nodes s0). wn_status n = IDLE \<and> wn_output n = None \<and> wn_error n = None)
     \<and> es_completed s0 = {}
     \<and> es_queue s0 = filter (\<lambda>nid. \<not> (\<exists>e\<in>set (wf_edges flow). we_target e = nid))
                         (map fst (wf_nodes flow))"
proof -
  have "filter (\<lambda>(k, n). wn_status n = COMPLETE) (map (\<lambda>(k, n). (k, reset_node n)) ns) = []" for ns
    by (induction ns) (auto simp: reset_node_def)
  then show ?thesis
    by (auto simp: initial_state_def Let_def get_entry_nodes_def reset_node_def
          intro!: filter_cong)
qed

text \<open>\<open>loop_flow\<close> after an earlier run: every node is complete and has an output.\<close>

definition used_loop_flow :: workflow where
  "used_loop_flow =
     loop_flow\<lparr>wf_nodes := map (\<lambda>(k, n). (k, n\<lparr>wn_status := COMPLETE, wn_output := Some ''old''\<rparr>))
                              (wf_nodes loop_flow)\<rparr>"

text \<open>
  Claim C7 says that a fresh run seeds the queue with the nodes that have no incoming
  non-feedback edge, so that a node whose only incoming edges are feedback edges is
  seeded. The writer of \<open>loop_flow\<close> is such a node: the only edge that leads to it is the
  feedback edge from the critic, and the readiness check asks for no predecessor. A fresh
  run resets the three nodes to idle, but \<open>get_entry_nodes\<close> counts the feedback edge as an
  incoming edge: the initial queue is empty, no node is ever dispatched, and the run
  ends at once without success.
\<close>

theorem feedback_only_node_not_seeded:
  "filter (\<lambda>e. we_target e = ''Writer'') (wf_edges loop_flow) = [mk_edge ''Critic'' ''Writer'' True]
   \<and> required_predecessors (wf_edges loop_flow) ''Writer'' = []
   \<and> (case initial_state rework_world used_loop_flow ''hi'' False [] [] of
        Inl e \<Rightarrow> False
      | Inr s0 \<Rightarrow>
          map (\<lambda>(k, n). (k, wn_status n, wn_output n)) (es_nodes s0)
            = [(''Writer'', IDLE, None), (''Critic'', IDLE, None), (''Out'', IDLE, None)]
          \<and> es_queue s0 = [])
   \<and> (case execute rework_world loop_flow ''hi'' False [] [] 10 of
        Some (Inr (r, s)) \<Rightarrow> es_dispatched s = [] \<and> \<not> r_success r
      | _ \<Rightarrow> False)"
  by code_simp

subsection \<open>Claim C2: the success of a run\<close>




subsection \<open>Claim C1: a node is dispatched although a required predecessor failed\<close>

text \<open>
  Claim C1 says that for a non-feedback edge \<open>(u, v)\<close> the node \<open>v\<close> is never dispatched
  before \<open>u\<close> has status complete. The readiness check tests membership in \<open>completed\<close>,
  and a node that ran is added to \<open>completed\<close> whether it succeeded or failed. In
  \<open>join_flow\<close> the node \<open>C\<close> is queued when \<open>A\<close> completes; \<open>B\<close> then fails; \<open>C\<close> is dispatched
  with \<open>B\<close> failed, although the edge from \<open>B\<close> to \<open>C\<close> is not a feedback edge.
\<close>

theorem failed_predecessor_dispatch:
  "mk_edge ''B'' ''C'' False \<in> set (wf_edges join_flow)
   \<and> (case execute b_fails_world join_flow ''hi'' False [] [] 10 of
        Some (Inr (r, s)) \<Rightarrow>
          es_dispatched s =
            [(''A'', [(''A'', IDLE), (''B'', IDLE), (''C'', IDLE)]),
             (''B'', [(''A'', COMPLETE), (''B'', IDLE), (''C'', IDLE)]),
             (''C'', [(''A'', COMPLETE), (''B'', FAILED), (''C'', IDLE)])]
      | _ \<Rightarrow> False)"
  by code_simp

subsection \<open>Claim C3: an exception that leaves execute\<close>

text \<open>
  Claim C3 says that \<open>execute\<close> never raises, whatever a node's executor does. The dispatch
  tags of a node's output are handled after the \<open>try\<close> block of the node: when the output
  of the only node of \<open>solo_flow\<close> carries a \<open><sleep>\<close> tag with the duration \<open>soon\<close>, the
  duration contains an \<open>s\<close>, \<open>int('oon')\<close> raises \<open>ValueError\<close>, and the exception leaves
  \<open>execute\<close>.
\<close>

theorem sleep_tag_raises:
  "execute sleepy_world solo_flow ''hi'' False [] [] 10
     = Some (Inl (ValueError (''invalid literal for int() with base 10: 'oon'' @ [CHR 0x27])))"
  by code_simp

subsection \<open>Claim C9: a node that runs more often than its bound allows\<close>

text \<open>
  Claim C9 says that \<open>iteration_count\<close> never exceeds \<open>max_iterations\<close> and that every node
  is executed at most \<open>max_iterations\<close> times. The bound is looked at only when a node with
  status complete is dequeued. A \<open><dispatch_task>\<close> tag resets its target to idle and
  queues it without looking at the counter. In \<open>boss_flow\<close> both nodes have the default
  \<open>max_iterations = 1\<close>; the boss answers with a dispatch to the worker, and the worker,
  idle again, is executed a second time: its \<open>iteration_count\<close> is 2 at the end of the run.
\<close>

theorem dispatched_node_exceeds_max_iterations:
  "(case execute boss_world boss_flow ''hi'' False [] [] 10 of
      Some (Inr (r, s)) \<Rightarrow>
        map fst (es_dispatched s) = [''Worker'', ''Boss'', ''Worker'']
        \<and> map (\<lambda>(k, n). (k, wn_iteration_count n, wn_max_iterations n)) (es_nodes s)
            = [(''Worker'', 2, 1), (''Boss'', 1, 1)]
    | _ \<Rightarrow> False)"
  by code_simp

end
